theory Spec2Isabelle
  imports Complex_Main
begin

section \<open>Python values\<close>

text \<open>
  The adapter handles JSON-shaped Python values: the keyword arguments of a chat request and
  the documents decoded from the remote service. A \<open>str\<close> is represented by its UTF-8
  encoding (a \<open>string\<close>; a surrogate that stands alone, which only a JSON escape can
  produce, by its three bytes), so that concatenation, equality and emptiness are those of Python;
  a \<open>float\<close> stands for the decimal it is written as (the program never computes with one,
  it only tests it for zero); a \<open>dict\<close> has \<open>str\<close> keys and keeps its entries in order.
\<close>

datatype pyval =
    PNone
  | PBool bool
  | PInt int
  | PFloat rat
  | PStr string
  | PList "pyval list"
  | PDict "(string \<times> pyval) list"

text \<open>The exceptions that the modelled code can raise, by their Python class.\<close>

datatype error =
    TypeError
  | IndexError
  | KeyError
  | JSONDecodeError
  | UnicodeDecodeError
  | AttributeError
  | HTTPStatusError
  | ValidationError

text \<open>Truth value of an object, as \<open>or\<close>, \<open>not\<close> and \<open>if\<close> test it.\<close>

fun truthy :: "pyval \<Rightarrow> bool" where
  "truthy PNone = False"
| "truthy (PBool b) = b"
| "truthy (PInt i) = (i \<noteq> 0)"
| "truthy (PFloat f) = (f \<noteq> 0)"
| "truthy (PStr s) = (s \<noteq> [])"
| "truthy (PList xs) = (xs \<noteq> [])"
| "truthy (PDict d) = (d \<noteq> [])"

text \<open>
  Number of bytes of the UTF-8 sequence that starts with the given byte: the first
  character of a \<open>str\<close> is that many bytes of its encoding.
\<close>

definition utf8_width :: "char \<Rightarrow> nat" where
  "utf8_width c =
     (let b = (of_char c :: nat)
      in if b < 0x80 then 1 else if b < 0xE0 then 2 else if b < 0xF0 then 3 else 4)"

text \<open>
  \<open>v[0]\<close>: the first element of a list, the first character of a string; IndexError on an
  empty one; KeyError on a dict (its keys are strings, never \<open>0\<close>); TypeError on an object
  that is not subscriptable.
\<close>

fun py_index0 :: "pyval \<Rightarrow> error + pyval" where
  "py_index0 (PList []) = Inl IndexError"
| "py_index0 (PList (x # xs)) = Inr x"
| "py_index0 (PStr []) = Inl IndexError"
| "py_index0 (PStr (c # cs)) = Inr (PStr (take (utf8_width c) (c # cs)))"
| "py_index0 (PDict d) = Inl KeyError"
| "py_index0 PNone = Inl TypeError"
| "py_index0 (PBool b) = Inl TypeError"
| "py_index0 (PInt i) = Inl TypeError"
| "py_index0 (PFloat f) = Inl TypeError"

text \<open>
  \<open>v[k]\<close> for a string key \<open>k\<close>: the entry of a dict, KeyError when it has none; TypeError
  on a list or a string (their indices must be integers) and on every other object.
\<close>

fun py_getitem_str :: "pyval \<Rightarrow> string \<Rightarrow> error + pyval" where
  "py_getitem_str (PDict d) k = (case map_of d k of None \<Rightarrow> Inl KeyError | Some v \<Rightarrow> Inr v)"
| "py_getitem_str (PList xs) k = Inl TypeError"
| "py_getitem_str (PStr s) k = Inl TypeError"
| "py_getitem_str PNone k = Inl TypeError"
| "py_getitem_str (PBool b) k = Inl TypeError"
| "py_getitem_str (PInt i) k = Inl TypeError"
| "py_getitem_str (PFloat f) k = Inl TypeError"

section \<open>Payload Builder\<close>

text \<open>
  \<open>**kwargs\<close> is a dict with string keys. \<open>kwargs.get(k, d)\<close> is the value stored under
  \<open>k\<close>, whatever it is (also \<open>None\<close>), and \<open>d\<close> only when the key is absent.
\<close>

type_synonym kwargs = "string \<rightharpoonup> pyval"

definition kwargs_get :: "kwargs \<Rightarrow> string \<Rightarrow> pyval \<Rightarrow> pyval" where
  "kwargs_get kw k d = (case kw k of None \<Rightarrow> d | Some v \<Rightarrow> v)"

record payload =
  data :: "pyval list"
  fn_index :: int

text \<open>
  \<open>GradioSpaceChat._build_payload\<close> (transformation.py). The message is
  \<open>kwargs.get("message") or kwargs.get("messages", [{"role": "user", "content": ""}])[0]["content"]\<close>:
  the right operand of \<open>or\<close> is evaluated only when the left one is falsy, and its two
  subscripts can raise.
\<close>

definition GradioSpaceChat_build_payload :: "kwargs \<Rightarrow> error + payload" where
  "GradioSpaceChat_build_payload kw =
     (case (let m = kwargs_get kw ''message'' PNone
            in if truthy m then Inr m
               else (case py_index0 (kwargs_get kw ''messages''
                            (PList [PDict [(''role'', PStr ''user''), (''content'', PStr '''')]])) of
                       Inl e \<Rightarrow> Inl e
                     | Inr first \<Rightarrow> py_getitem_str first ''content''))
      of Inl e \<Rightarrow> Inl e
       | Inr message \<Rightarrow>
           Inr \<lparr> data =
                   [ message,
                     kwargs_get kw ''history'' (PList []),
                     kwargs_get kw ''model'' (PStr ''Meta-Llama-3.1-8B-Instruct.Q6_K.gguf''),
                     kwargs_get kw ''system_message'' (PStr ''You are a helpful assistant.''),
                     kwargs_get kw ''max_tokens'' (PInt 4096),
                     kwargs_get kw ''ctx_size'' (PInt 8192),
                     kwargs_get kw ''temperature'' (PFloat 0.1),
                     kwargs_get kw ''top_p'' (PFloat 0.95),
                     kwargs_get kw ''top_k'' (PInt 40),
                     kwargs_get kw ''repeat_penalty'' (PFloat 1.0),
                     kwargs_get kw ''long_duration'' (PBool False) ],
                 fn_index = 0 \<rparr>)"

text \<open>\<open>GradioLLM._build_payload\<close> (my_ai.py): the same code with three other defaults.\<close>

definition GradioLLM_build_payload :: "kwargs \<Rightarrow> error + payload" where
  "GradioLLM_build_payload kw =
     (case (let m = kwargs_get kw ''message'' PNone
            in if truthy m then Inr m
               else (case py_index0 (kwargs_get kw ''messages''
                            (PList [PDict [(''role'', PStr ''user''), (''content'', PStr '''')]])) of
                       Inl e \<Rightarrow> Inl e
                     | Inr first \<Rightarrow> py_getitem_str first ''content''))
      of Inl e \<Rightarrow> Inl e
       | Inr message \<Rightarrow>
           Inr \<lparr> data =
                   [ message,
                     kwargs_get kw ''history'' (PList []),
                     kwargs_get kw ''model'' (PStr ''n8n_Qwen3-8B''),
                     kwargs_get kw ''system_message'' (PStr ''You are a helpful assistant.''),
                     kwargs_get kw ''max_tokens'' (PInt 4096),
                     kwargs_get kw ''ctx_size'' (PInt 32192),
                     kwargs_get kw ''temperature'' (PFloat 0.4),
                     kwargs_get kw ''top_p'' (PFloat 0.95),
                     kwargs_get kw ''top_k'' (PInt 40),
                     kwargs_get kw ''repeat_penalty'' (PFloat 1.0),
                     kwargs_get kw ''long_duration'' (PBool False) ],
                 fn_index = 0 \<rparr>)"

text \<open>
  The documented defaults of the eleven slots, in the documented order, as the
  specification lists them for each of the two presets; and the parameter bag with the
  defaults of its missing fields filled in explicitly.
\<close>

definition documented_defaults_chat :: "(string \<times> pyval) list" where
  "documented_defaults_chat =
     [ (''message'', PStr ''''),
       (''history'', PList []),
       (''model'', PStr ''Meta-Llama-3.1-8B-Instruct.Q6_K.gguf''),
       (''system_message'', PStr ''You are a helpful assistant.''),
       (''max_tokens'', PInt 4096),
       (''ctx_size'', PInt 8192),
       (''temperature'', PFloat 0.1),
       (''top_p'', PFloat 0.95),
       (''top_k'', PInt 40),
       (''repeat_penalty'', PFloat 1.0),
       (''long_duration'', PBool False) ]"

definition documented_defaults_llm :: "(string \<times> pyval) list" where
  "documented_defaults_llm =
     [ (''message'', PStr ''''),
       (''history'', PList []),
       (''model'', PStr ''n8n_Qwen3-8B''),
       (''system_message'', PStr ''You are a helpful assistant.''),
       (''max_tokens'', PInt 4096),
       (''ctx_size'', PInt 32192),
       (''temperature'', PFloat 0.4),
       (''top_p'', PFloat 0.95),
       (''top_k'', PInt 40),
       (''repeat_penalty'', PFloat 1.0),
       (''long_duration'', PBool False) ]"


text \<open>The value a slot gets from a bag: the bag's entry, the default when it has none.\<close>

definition slot_of :: "kwargs \<Rightarrow> string \<times> pyval \<Rightarrow> pyval" where
  "slot_of kw kd = (case kw (fst kd) of None \<Rightarrow> snd kd | Some v \<Rightarrow> v)"

section \<open>Bytes, text lines and the remote response\<close>

text \<open>
  \<open>bytes.decode()\<close> decodes UTF-8 strictly: it raises UnicodeDecodeError on a byte sequence
  that is not well formed and otherwise returns the text, which is represented by these
  same bytes. \<open>utf8_ok n lo hi bs\<close> reads \<open>bs\<close> when \<open>n\<close> continuation bytes are still due,
  the next of them between \<open>lo\<close> and \<open>hi\<close>.
\<close>

fun utf8_ok :: "nat \<Rightarrow> nat \<Rightarrow> nat \<Rightarrow> string \<Rightarrow> bool" where
  "utf8_ok n lo hi [] = (n = 0)"
| "utf8_ok 0 lo hi (c # cs) =
     (let b = (of_char c :: nat)
      in if b < 0x80 then utf8_ok 0 0x80 0xBF cs
         else if b < 0xC2 then False
         else if b < 0xE0 then utf8_ok 1 0x80 0xBF cs
         else if b = 0xE0 then utf8_ok 2 0xA0 0xBF cs
         else if b = 0xED then utf8_ok 2 0x80 0x9F cs
         else if b < 0xF0 then utf8_ok 2 0x80 0xBF cs
         else if b = 0xF0 then utf8_ok 3 0x90 0xBF cs
         else if b < 0xF4 then utf8_ok 3 0x80 0xBF cs
         else if b = 0xF4 then utf8_ok 3 0x80 0x8F cs
         else False)"
| "utf8_ok (Suc n) lo hi (c # cs) =
     (let b = (of_char c :: nat)
      in lo \<le> b \<and> b \<le> hi \<and> utf8_ok n 0x80 0xBF cs)"

definition bytes_decode :: "string \<Rightarrow> error + string" where
  "bytes_decode bs = (if utf8_ok 0 0x80 0xBF bs then Inr bs else Inl UnicodeDecodeError)"

text \<open>
  A line of the event stream is a \<open>bytes\<close> object or a \<open>str\<close>, depending on the HTTP
  library that iterates the response: \<open>requests\<close> yields bytes, \<open>httpx\<close> yields text.
  The code is the same for both, and Python decides at run time what each operation does.
\<close>

datatype pyline = Text string | Bytes string

text \<open>\<open>not line\<close>: true of the empty line of either type.\<close>

fun line_empty :: "pyline \<Rightarrow> bool" where
  "line_empty (Text s) = (s = [])"
| "line_empty (Bytes bs) = (bs = [])"

text \<open>
  \<open>line.startswith(b"...")\<close> with a bytes prefix: the prefix test on bytes; on a \<open>str\<close>,
  TypeError (the first argument of \<open>str.startswith\<close> must be a \<open>str\<close>).
\<close>

fun startswith_bytes :: "pyline \<Rightarrow> string \<Rightarrow> error + bool" where
  "startswith_bytes (Text s) p = Inl TypeError"
| "startswith_bytes (Bytes bs) p = Inr (take (length p) bs = p)"

text \<open>\<open>line[6:].decode()\<close>; a \<open>str\<close> has no method \<open>decode\<close>.\<close>

fun slice6_decode :: "pyline \<Rightarrow> error + string" where
  "slice6_decode (Text s) = Inl AttributeError"
| "slice6_decode (Bytes bs) = bytes_decode (drop 6 bs)"

text \<open>
  The response of the remote service, as far as the code reads it: whether
  \<open>raise_for_status()\<close> raises, the body that \<open>json()\<close> decodes, and the lines that
  \<open>iter_lines()\<close> or \<open>aiter_lines()\<close> yields until the stream closes.
\<close>

record response =
  raises_for_status :: bool
  body :: string
  iter_lines :: "pyline list"

text \<open>
  The JSON decoder of the standard library (\<open>json.loads\<close>, also behind
  \<open>response.json()\<close>) is a parameter of the model: a function from a text to the decoded
  value or to the exception raised.
\<close>

type_synonym json_decoder = "string \<Rightarrow> error + pyval"

section \<open>Streaming chunks and generators\<close>

record usage =
  completion_tokens :: int
  prompt_tokens :: int
  total_tokens :: int

record chunk =
  finish_reason :: "string option"
  index :: int
  is_finished :: bool
  "text" :: string
  tool_use :: "pyval option"
  usage :: usage

text \<open>\<open>_sse_to_chunk\<close> of my_ai.py (a module function with an \<open>index\<close> argument).\<close>

definition sse_to_chunk :: "string \<Rightarrow> int \<Rightarrow> bool \<Rightarrow> chunk" where
  "sse_to_chunk t i finished =
     \<lparr> finish_reason = (if finished then Some ''stop'' else None),
       index = i,
       is_finished = finished,
       text = t,
       tool_use = None,
       usage = \<lparr> completion_tokens = 0, prompt_tokens = 0, total_tokens = 0 \<rparr> \<rparr>"

text \<open>\<open>GradioSpaceChat._sse_to_chunk\<close> (the index is always 0).\<close>

definition GradioSpaceChat_sse_to_chunk :: "string \<Rightarrow> bool \<Rightarrow> chunk" where
  "GradioSpaceChat_sse_to_chunk t finished =
     \<lparr> finish_reason = (if finished then Some ''stop'' else None),
       index = 0,
       is_finished = finished,
       text = t,
       tool_use = None,
       usage = \<lparr> completion_tokens = 0, prompt_tokens = 0, total_tokens = 0 \<rparr> \<rparr>"

text \<open>
  A generator is modelled by what its consumer observes: the values yielded, in order, and
  the exception that ended it, if one did.
\<close>

type_synonym 'a gen = "'a list \<times> error option"

definition yield :: "'a \<Rightarrow> 'a gen \<Rightarrow> 'a gen" where
  "yield x g = (x # fst g, snd g)"

text \<open>\<open>buffer += partial\<close> on a \<open>str\<close> buffer: concatenation with a \<open>str\<close>, TypeError otherwise.\<close>

fun str_iadd :: "string \<Rightarrow> pyval \<Rightarrow> error + string" where
  "str_iadd buffer (PStr s) = Inr (buffer @ s)"
| "str_iadd buffer PNone = Inl TypeError"
| "str_iadd buffer (PBool b) = Inl TypeError"
| "str_iadd buffer (PInt i) = Inl TypeError"
| "str_iadd buffer (PFloat f) = Inl TypeError"
| "str_iadd buffer (PList xs) = Inl TypeError"
| "str_iadd buffer (PDict d) = Inl TypeError"

text \<open>
  The three statements before the \<open>yield\<close> in the \<open>try\<close> block of each loop:
  \<open>json.loads(chunk)\<close>, the subscript \<open>[0]\<close>, and \<open>buffer += partial\<close>. The result is the
  new buffer, or the exception that \<open>except Exception\<close> catches; the buffer is assigned only
  when all three succeed.
\<close>

definition try_fragment :: "json_decoder \<Rightarrow> string \<Rightarrow> string \<Rightarrow> error + string" where
  "try_fragment loads buffer c =
     (case loads c of
        Inl e \<Rightarrow> Inl e
      | Inr d \<Rightarrow> (case py_index0 d of Inl e \<Rightarrow> Inl e | Inr partial \<Rightarrow> str_iadd buffer partial))"

section \<open>Stream Reassembler\<close>

text \<open>
  The loop of \<open>GradioLLM._stream_space\<close> (my_ai.py) over the lines of the response, from
  the buffer held so far; it yields strings.
\<close>

fun stream_space_loop :: "json_decoder \<Rightarrow> string \<Rightarrow> pyline list \<Rightarrow> string gen" where
  "stream_space_loop loads buffer [] = ([], None)"
| "stream_space_loop loads buffer (line # rest) =
     (if line_empty line then stream_space_loop loads buffer rest
      else
        (case startswith_bytes line ''data: '' of
           Inl e \<Rightarrow> ([], Some e)
         | Inr False \<Rightarrow> stream_space_loop loads buffer rest
         | Inr True \<Rightarrow>
             (case slice6_decode line of
                Inl e \<Rightarrow> ([], Some e)
              | Inr c \<Rightarrow>
                  if c = ''[DONE]'' then (if buffer \<noteq> [] then ([buffer], None) else ([], None))
                  else
                    (case try_fragment loads buffer c of
                       Inr buffer' \<Rightarrow> yield buffer' (stream_space_loop loads buffer' rest)
                     | Inl e \<Rightarrow> yield c (stream_space_loop loads buffer rest)))))"

text \<open>\<open>GradioLLM._stream_space\<close>: the status check, then the loop from the empty buffer.\<close>

definition GradioLLM_stream_space :: "json_decoder \<Rightarrow> payload \<Rightarrow> response \<Rightarrow> string gen" where
  "GradioLLM_stream_space loads p resp =
     (if raises_for_status resp then ([], Some HTTPStatusError)
      else stream_space_loop loads [] (iter_lines resp))"

text \<open>
  \<open>GradioLLM.streaming\<close>: every string that \<open>_stream_space\<close> yields becomes a chunk that is
  not finished; when \<open>_stream_space\<close> returns, one more chunk follows, finished and with
  the empty text. An exception of the payload builder or of \<open>_stream_space\<close> ends the
  generator where it is raised.
\<close>

definition GradioLLM_streaming :: "json_decoder \<Rightarrow> kwargs \<Rightarrow> response \<Rightarrow> chunk gen" where
  "GradioLLM_streaming loads kw resp =
     (case GradioLLM_build_payload kw of
        Inl e \<Rightarrow> ([], Some e)
      | Inr p \<Rightarrow>
          (let g = GradioLLM_stream_space loads p resp;
               chunks = map (\<lambda>partial. sse_to_chunk partial 0 False) (fst g)
           in case snd g of
                Some e \<Rightarrow> (chunks, Some e)
              | None \<Rightarrow> (chunks @ [sse_to_chunk '''' 0 True], None)))"

text \<open>
  The loop of \<open>GradioSpaceChat.get_sync_custom_stream_wrapper\<close> (transformation.py); the
  loop of \<open>get_async_custom_stream_wrapper\<close> is the same statements over \<open>aiter_lines()\<close>.
  It yields chunks.
\<close>

fun chat_stream_loop :: "json_decoder \<Rightarrow> string \<Rightarrow> pyline list \<Rightarrow> chunk gen" where
  "chat_stream_loop loads buffer [] = ([], None)"
| "chat_stream_loop loads buffer (line # rest) =
     (if line_empty line then chat_stream_loop loads buffer rest
      else
        (case startswith_bytes line ''data: '' of
           Inl e \<Rightarrow> ([], Some e)
         | Inr False \<Rightarrow> chat_stream_loop loads buffer rest
         | Inr True \<Rightarrow>
             (case slice6_decode line of
                Inl e \<Rightarrow> ([], Some e)
              | Inr c \<Rightarrow>
                  if c = ''[DONE]''
                  then (if buffer \<noteq> [] then ([GradioSpaceChat_sse_to_chunk buffer True], None)
                        else ([], None))
                  else
                    (case try_fragment loads buffer c of
                       Inr buffer' \<Rightarrow>
                         yield (GradioSpaceChat_sse_to_chunk buffer' False)
                           (chat_stream_loop loads buffer' rest)
                     | Inl e \<Rightarrow>
                         yield (GradioSpaceChat_sse_to_chunk c False)
                           (chat_stream_loop loads buffer rest)))))"

definition GradioSpaceChat_transform_request :: "kwargs \<Rightarrow> error + payload" where
  "GradioSpaceChat_transform_request kw = GradioSpaceChat_build_payload kw"

text \<open>
  \<open>GradioSpaceChat._post\<close> and \<open>_apost\<close> call the \<open>post\<close> method of an httpx client with
  the keyword \<open>stream\<close>. That method takes no such keyword: the call raises TypeError before
  any request is sent, whatever the payload and the flag, and the response that the
  service would have given is never received.
\<close>

definition GradioSpaceChat_post :: "payload \<Rightarrow> bool \<Rightarrow> response \<Rightarrow> error + response" where
  "GradioSpaceChat_post p stream resp = Inl TypeError"

definition GradioSpaceChat_apost :: "payload \<Rightarrow> bool \<Rightarrow> response \<Rightarrow> error + response" where
  "GradioSpaceChat_apost p stream resp = Inl TypeError"

text \<open>
  The two wrappers: the request is transformed, posted with \<open>stream=True\<close>, the status is
  checked, and the loop runs over the lines of the response.
\<close>

definition get_sync_custom_stream_wrapper :: "json_decoder \<Rightarrow> kwargs \<Rightarrow> response \<Rightarrow> chunk gen" where
  "get_sync_custom_stream_wrapper loads kw resp =
     (case GradioSpaceChat_transform_request kw of
        Inl e \<Rightarrow> ([], Some e)
      | Inr p \<Rightarrow>
          (case GradioSpaceChat_post p True resp of
             Inl e \<Rightarrow> ([], Some e)
           | Inr r \<Rightarrow>
               if raises_for_status r then ([], Some HTTPStatusError)
               else chat_stream_loop loads [] (iter_lines r)))"

definition get_async_custom_stream_wrapper :: "json_decoder \<Rightarrow> kwargs \<Rightarrow> response \<Rightarrow> chunk gen" where
  "get_async_custom_stream_wrapper loads kw resp =
     (case GradioSpaceChat_transform_request kw of
        Inl e \<Rightarrow> ([], Some e)
      | Inr p \<Rightarrow>
          (case GradioSpaceChat_apost p True resp of
             Inl e \<Rightarrow> ([], Some e)
           | Inr r \<Rightarrow>
               if raises_for_status r then ([], Some HTTPStatusError)
               else chat_stream_loop loads [] (iter_lines r)))"

section \<open>Response Decoder\<close>

record chat_message =
  role :: string
  content :: pyval

record choice =
  choice_message :: chat_message
  choice_finish_reason :: string
  choice_index :: int

text \<open>
  The result object, with the fields that \<open>transform_response\<close> gives to the
  \<open>ModelResponse\<close> constructor.
\<close>

record ModelResponse =
  model :: string
  choices :: "choice list"
  response_usage :: usage

text \<open>
  Modelled from the spec: the validation of a message content by the \<open>ModelResponse\<close> class
  of the host framework, which the source files import and do not define. The Completion
  Result carries the decoded text: a content is valid when it is a \<open>str\<close> (or \<open>None\<close>, the
  content of a message without text), and no value of another type is.
\<close>

fun valid_content :: "pyval \<Rightarrow> bool" where
  "valid_content (PStr s) = True"
| "valid_content PNone = True"
| "valid_content (PBool b) = False"
| "valid_content (PInt i) = False"
| "valid_content (PFloat f) = False"
| "valid_content (PList xs) = False"
| "valid_content (PDict d) = False"

text \<open>
  Modelled from the spec: the \<open>ModelResponse\<close> constructor of the host framework, which the
  source files import and do not define. It builds the Completion Result from the model
  name, the choices and the usage, and raises ValidationError when the content of a
  choice's message is not valid.
\<close>

definition ModelResponse_init :: "string \<Rightarrow> choice list \<Rightarrow> usage \<Rightarrow> error + ModelResponse" where
  "ModelResponse_init m cs u =
     (if list_all (\<lambda>c. valid_content (content (choice_message c))) cs
      then Inr \<lparr> model = m, choices = cs, response_usage = u \<rparr>
      else Inl ValidationError)"

definition name :: string where
  "name = ''gradio-llama''"

text \<open>
  \<open>GradioSpaceChat.transform_response\<close>: \<open>response.json()\<close>, then \<open>raw["data"][0]\<close>, then
  the constructor; each step can raise, and nothing catches the exception.
\<close>

definition transform_response :: "json_decoder \<Rightarrow> response \<Rightarrow> error + ModelResponse" where
  "transform_response loads resp =
     (case loads (body resp) of
        Inl e \<Rightarrow> Inl e
      | Inr raw \<Rightarrow>
          (case py_getitem_str raw ''data'' of
             Inl e \<Rightarrow> Inl e
           | Inr d \<Rightarrow>
               (case py_index0 d of
                  Inl e \<Rightarrow> Inl e
                | Inr assistant_text \<Rightarrow>
                    ModelResponse_init name
                      [ \<lparr> choice_message = \<lparr> role = ''assistant'', content = assistant_text \<rparr>,
                          choice_finish_reason = ''stop'',
                          choice_index = 0 \<rparr> ]
                      \<lparr> completion_tokens = 0, prompt_tokens = 0, total_tokens = 0 \<rparr>)))"

text \<open>
  \<open>GradioLLM._call_space\<close>: the status check, \<open>resp.json()\<close>, then \<open>data["data"][0]\<close>. It
  returns the assistant text; \<open>GradioLLM.completion\<close> hands it to the host framework's
  \<open>completion\<close>, which builds the result object and is not among the source files.
\<close>

definition GradioLLM_call_space :: "json_decoder \<Rightarrow> payload \<Rightarrow> response \<Rightarrow> error + pyval" where
  "GradioLLM_call_space loads p resp =
     (if raises_for_status resp then Inl HTTPStatusError
      else
        (case loads (body resp) of
           Inl e \<Rightarrow> Inl e
         | Inr d \<Rightarrow>
             (case py_getitem_str d ''data'' of
                Inl e \<Rightarrow> Inl e
              | Inr v \<Rightarrow> py_index0 v)))"

section \<open>The JSON decoder\<close>

text \<open>
  The general theorems below hold for every decoder. The scenarios of the specification
  name concrete texts, and for them the decoder is written out here. It reads JSON texts as
  \<open>json.loads\<close> does: arrays, objects, strings with their escapes (a \<open>\u\<close> escape gives the
  UTF-8 bytes of its character, two escapes that form a surrogate pair give one
  character), integers, numbers with a fraction or an exponent (a float, standing for the
  decimal written), \<open>true\<close>, \<open>false\<close>, \<open>null\<close> and white space. Every other text is
  rejected with JSONDecodeError. The three constants \<open>NaN\<close>, \<open>Infinity\<close> and \<open>-Infinity\<close>,
  which \<open>json.loads\<close> accepts beyond JSON, have no value in this model and are rejected too.
\<close>

definition is_ws :: "char \<Rightarrow> bool" where
  "is_ws c = (c = CHR '' '' \<or> c = CHR 0x09 \<or> c = CHR 0x0A \<or> c = CHR 0x0D)"

definition skip_ws :: "string \<Rightarrow> string" where
  "skip_ws cs = dropWhile is_ws cs"

definition is_digit :: "char \<Rightarrow> bool" where
  "is_digit c = ((of_char c :: nat) \<ge> 48 \<and> (of_char c :: nat) \<le> 57)"

definition digits_value :: "string \<Rightarrow> int" where
  "digits_value ds = foldl (\<lambda>acc c. 10 * acc + (int (of_char c) - 48)) 0 ds"

text \<open>
  A number: an optional minus sign, then \<open>0\<close> or a digit string without leading zero, then
  optionally a point with digits, then optionally \<open>e\<close> or \<open>E\<close>, a sign and digits. With
  neither fraction nor exponent it is an \<open>int\<close>, otherwise a \<open>float\<close>. A point or an \<open>e\<close>
  that no digit follows is not part of the number and is left in the rest.
\<close>

definition parse_number :: "string \<Rightarrow> (pyval \<times> string) option" where
  "parse_number cs =
     (let neg = (cs \<noteq> [] \<and> hd cs = CHR ''-'');
          cs1 = (if neg then tl cs else cs);
          ds = takeWhile is_digit cs1;
          r1 = dropWhile is_digit cs1;
          has_frac = (r1 \<noteq> [] \<and> hd r1 = CHR ''.'' \<and> takeWhile is_digit (tl r1) \<noteq> []);
          fs = (if has_frac then takeWhile is_digit (tl r1) else []);
          r2 = (if has_frac then dropWhile is_digit (tl r1) else r1);
          r3 = (if r2 \<noteq> [] \<and> (hd r2 = CHR ''e'' \<or> hd r2 = CHR ''E'') then tl r2 else []);
          eneg = (r3 \<noteq> [] \<and> hd r3 = CHR ''-'');
          r4 = (if r3 \<noteq> [] \<and> (hd r3 = CHR ''-'' \<or> hd r3 = CHR ''+'') then tl r3 else r3);
          es = takeWhile is_digit r4;
          has_exp = (es \<noteq> []);
          rest = (if has_exp then dropWhile is_digit r4 else r2);
          mantissa = (if neg then - digits_value (ds @ fs) else digits_value (ds @ fs));
          exponent = (if eneg then - digits_value es else digits_value es) - int (length fs)
      in if ds = [] then None
         else if length ds > 1 \<and> hd ds = CHR ''0'' then None
         else if \<not> has_frac \<and> \<not> has_exp then Some (PInt mantissa, rest)
         else Some (PFloat (if exponent \<ge> 0 then of_int mantissa * 10 ^ nat exponent
                            else of_int mantissa / 10 ^ nat (- exponent)), rest))"

text \<open>The four hexadecimal digits of a \<open>\u\<close> escape, and the UTF-8 bytes of a character.\<close>

definition hex_value :: "char \<Rightarrow> nat option" where
  "hex_value c =
     (let b = (of_char c :: nat)
      in if 48 \<le> b \<and> b \<le> 57 then Some (b - 48)
         else if 65 \<le> b \<and> b \<le> 70 then Some (b - 55)
         else if 97 \<le> b \<and> b \<le> 102 then Some (b - 87)
         else None)"

definition hex4 :: "string \<Rightarrow> nat option" where
  "hex4 cs =
     (case cs of
        a # b # c # d # rest \<Rightarrow>
          (case (hex_value a, hex_value b, hex_value c, hex_value d) of
             (Some w, Some x, Some y, Some z) \<Rightarrow> Some (((w * 16 + x) * 16 + y) * 16 + z)
           | _ \<Rightarrow> None)
      | _ \<Rightarrow> None)"

definition utf8_encode :: "nat \<Rightarrow> string" where
  "utf8_encode n =
     (if n < 0x80 then [char_of n]
      else if n < 0x800 then [char_of (0xC0 + n div 64), char_of (0x80 + n mod 64)]
      else if n < 0x10000 then
        [char_of (0xE0 + n div 4096), char_of (0x80 + (n div 64) mod 64), char_of (0x80 + n mod 64)]
      else
        [char_of (0xF0 + n div 262144), char_of (0x80 + (n div 4096) mod 64),
         char_of (0x80 + (n div 64) mod 64), char_of (0x80 + n mod 64)])"

text \<open>
  The characters of a string after its opening quote, up to the closing quote: the text
  and what follows the closing quote. A control character in the string is an error.
\<close>

fun parse_string :: "string \<Rightarrow> (string \<times> string) option" where
  "parse_string [] = None"
| "parse_string [c] = (if c = CHR 0x22 then Some ([], []) else None)"
| "parse_string (c # d # cs) =
     (if c = CHR 0x22 then Some ([], d # cs)
      else if c = CHR 0x5C then
        (if d = CHR ''u'' then
           (case hex4 cs of
              None \<Rightarrow> None
            | Some n \<Rightarrow>
                if 0xD800 \<le> n \<and> n \<le> 0xDBFF \<and> take 2 (drop 4 cs) = [CHR 0x5C, CHR ''u''] then
                  (case hex4 (drop 6 cs) of
                     None \<Rightarrow> None
                   | Some n2 \<Rightarrow>
                       if 0xDC00 \<le> n2 \<and> n2 \<le> 0xDFFF then
                         (case parse_string (drop 10 cs) of
                            None \<Rightarrow> None
                          | Some (s, r) \<Rightarrow>
                              Some (utf8_encode (0x10000 + (n - 0xD800) * 1024 + (n2 - 0xDC00)) @ s, r))
                       else
                         (case parse_string (drop 4 cs) of
                            None \<Rightarrow> None
                          | Some (s, r) \<Rightarrow> Some (utf8_encode n @ s, r)))
                else
                  (case parse_string (drop 4 cs) of
                     None \<Rightarrow> None
                   | Some (s, r) \<Rightarrow> Some (utf8_encode n @ s, r)))
         else
           (let e = (if d = CHR 0x22 then Some (CHR 0x22)
                     else if d = CHR 0x5C then Some (CHR 0x5C)
                     else if d = CHR ''/'' then Some (CHR ''/'')
                     else if d = CHR ''b'' then Some (CHR 0x08)
                     else if d = CHR ''f'' then Some (CHR 0x0C)
                     else if d = CHR ''n'' then Some (CHR 0x0A)
                     else if d = CHR ''r'' then Some (CHR 0x0D)
                     else if d = CHR ''t'' then Some (CHR 0x09)
                     else None)
            in case e of
                 None \<Rightarrow> None
               | Some x \<Rightarrow> (case parse_string cs of None \<Rightarrow> None | Some (s, r) \<Rightarrow> Some (x # s, r))))
      else if (of_char c :: nat) < 0x20 then None
      else (case parse_string (d # cs) of None \<Rightarrow> None | Some (s, r) \<Rightarrow> Some (c # s, r)))"

text \<open>Storing a key in a dict: the value of a key already there is replaced in place.\<close>

fun dict_set :: "string \<Rightarrow> pyval \<Rightarrow> (string \<times> pyval) list \<Rightarrow> (string \<times> pyval) list" where
  "dict_set k v [] = [(k, v)]"
| "dict_set k v (p # ps) = (if fst p = k then (k, v) # ps else p # dict_set k v ps)"

text \<open>
  Values, the elements of an array after its opening bracket, and the members of an object
  after its opening brace. The first argument bounds the number of nested calls; a text
  that closes its brackets needs fewer calls than it has characters, and a text that runs
  out of calls is rejected, as it is for its unclosed bracket.
\<close>

fun parse_value :: "nat \<Rightarrow> string \<Rightarrow> (pyval \<times> string) option"
  and parse_elements :: "nat \<Rightarrow> string \<Rightarrow> (pyval list \<times> string) option"
  and parse_members :: "nat \<Rightarrow> string \<Rightarrow> ((string \<times> pyval) list \<times> string) option"
where
  "parse_value 0 cs = None"
| "parse_value (Suc n) cs =
     (case skip_ws cs of
        [] \<Rightarrow> None
      | c # r \<Rightarrow>
          if c = CHR ''['' then
            (case skip_ws r of
               [] \<Rightarrow> None
             | c' # r' \<Rightarrow>
                 if c' = CHR '']'' then Some (PList [], r')
                 else (case parse_elements n (c' # r') of
                         None \<Rightarrow> None
                       | Some (vs, r'') \<Rightarrow> Some (PList vs, r'')))
          else if c = CHR ''{'' then
            (case skip_ws r of
               [] \<Rightarrow> None
             | c' # r' \<Rightarrow>
                 if c' = CHR ''}'' then Some (PDict [], r')
                 else (case parse_members n (c' # r') of
                         None \<Rightarrow> None
                       | Some (kvs, r'') \<Rightarrow>
                           Some (PDict (foldl (\<lambda>d kv. dict_set (fst kv) (snd kv) d) [] kvs), r'')))
          else if c = CHR 0x22 then
            (case parse_string r of None \<Rightarrow> None | Some (s, r') \<Rightarrow> Some (PStr s, r'))
          else if take 4 (c # r) = ''true'' then Some (PBool True, drop 4 (c # r))
          else if take 5 (c # r) = ''false'' then Some (PBool False, drop 5 (c # r))
          else if take 4 (c # r) = ''null'' then Some (PNone, drop 4 (c # r))
          else parse_number (c # r))"
| "parse_elements 0 cs = None"
| "parse_elements (Suc n) cs =
     (case parse_value n cs of
        None \<Rightarrow> None
      | Some (v, r) \<Rightarrow>
          (case skip_ws r of
             [] \<Rightarrow> None
           | c # r' \<Rightarrow>
               if c = CHR '']'' then Some ([v], r')
               else if c = CHR '','' then
                 (case parse_elements n r' of
                    None \<Rightarrow> None
                  | Some (vs, r'') \<Rightarrow> Some (v # vs, r''))
               else None))"
| "parse_members 0 cs = None"
| "parse_members (Suc n) cs =
     (case skip_ws cs of
        [] \<Rightarrow> None
      | q # r \<Rightarrow>
          if q \<noteq> CHR 0x22 then None
          else
            (case parse_string r of
               None \<Rightarrow> None
             | Some (k, r1) \<Rightarrow>
                 (case skip_ws r1 of
                    [] \<Rightarrow> None
                  | colon # r2 \<Rightarrow>
                      if colon \<noteq> CHR '':'' then None
                      else
                        (case parse_value n r2 of
                           None \<Rightarrow> None
                         | Some (v, r3) \<Rightarrow>
                             (case skip_ws r3 of
                                [] \<Rightarrow> None
                              | c # r4 \<Rightarrow>
                                  if c = CHR ''}'' then Some ([(k, v)], r4)
                                  else if c = CHR '','' then
                                    (case parse_members n r4 of
                                       None \<Rightarrow> None
                                     | Some (kvs, r5) \<Rightarrow> Some ((k, v) # kvs, r5))
                                  else None)))))"

definition json_loads :: json_decoder where
  "json_loads s =
     (case parse_value (Suc (Suc (length s))) s of
        None \<Rightarrow> Inl JSONDecodeError
      | Some (v, r) \<Rightarrow> if skip_ws r = [] then Inr v else Inl JSONDecodeError)"

text \<open>What the scenarios of the specification observe of a chunk: its text and its finished flag.\<close>

definition observe :: "chunk \<Rightarrow> string \<times> bool" where
  "observe c = (text c, is_finished c)"

section \<open>The scenarios of the specification\<close>

text \<open>
  A response whose status check passes and that streams the given lines, and one that
  carries the given body; the three event lines of the two streaming scenarios.
\<close>

definition stream_response :: "pyline list \<Rightarrow> response" where
  "stream_response ls = \<lparr> raises_for_status = False, body = [], iter_lines = ls \<rparr>"

definition json_response :: "string \<Rightarrow> response" where
  "json_response b = \<lparr> raises_for_status = False, body = b, iter_lines = [] \<rparr>"

definition hello_lines :: "string list" where
  "hello_lines = [''data: [\"He\"]'', ''data: [\"llo\"]'', ''data: [DONE]'']"

definition malformed_lines :: "string list" where
  "malformed_lines = [''data: [\"He\"]'', ''data: not-json'', ''data: [DONE]'']"

section \<open>Properties of the Payload Builder\<close>




lemma slot_of_kwargs_get: "slot_of kw (k, d) = kwargs_get kw k d"
  by (simp add: slot_of_def kwargs_get_def split: option.splits)

lemma kwargs_get_absent: "kw k = None \<Longrightarrow> kwargs_get kw k d = d"
  by (simp add: kwargs_get_def)

lemma kwargs_get_present: "kw k = Some v \<Longrightarrow> kwargs_get kw k d = v"
  by (simp add: kwargs_get_def)



text \<open>
  The subscripts \<open>messages[0]["content"]\<close> succeed exactly on a list whose first entry is a
  dict with the key \<open>content\<close>.
\<close>

lemma first_content_Inr:
  "(case py_index0 ms of Inl e \<Rightarrow> Inl e | Inr f \<Rightarrow> py_getitem_str f ''content'') = Inr c
     \<longleftrightarrow> (\<exists>d rest. ms = PList (PDict d # rest) \<and> map_of d ''content'' = Some c)"
proof (cases ms)
  case (PList xs)
  show ?thesis
  proof (cases xs)
    case Nil
    with PList show ?thesis by simp
  next
    case (Cons x rest)
    with PList show ?thesis by (cases x) (simp_all split: option.splits)
  qed
next
  case (PStr s)
  then show ?thesis by (cases s) simp_all
qed simp_all

text \<open>The two builders, with the resolution of the message separated from the ten other slots.\<close>

lemma chat_build_truthy:
  "truthy (kwargs_get kw ''message'' PNone) \<Longrightarrow>
     GradioSpaceChat_build_payload kw =
       Inr \<lparr> data = kwargs_get kw ''message'' PNone # map (slot_of kw) (tl documented_defaults_chat),
             fn_index = 0 \<rparr>"
  by (simp add: GradioSpaceChat_build_payload_def documented_defaults_chat_def slot_of_kwargs_get)

lemma chat_build_falsy:
  "\<not> truthy (kwargs_get kw ''message'' PNone) \<Longrightarrow>
     GradioSpaceChat_build_payload kw =
       (case (case py_index0 (kwargs_get kw ''messages''
                 (PList [PDict [(''role'', PStr ''user''), (''content'', PStr '''')]])) of
               Inl e \<Rightarrow> Inl e | Inr f \<Rightarrow> py_getitem_str f ''content'') of
          Inl e \<Rightarrow> Inl e
        | Inr c \<Rightarrow> Inr \<lparr> data = c # map (slot_of kw) (tl documented_defaults_chat), fn_index = 0 \<rparr>)"
  by (simp add: GradioSpaceChat_build_payload_def documented_defaults_chat_def slot_of_kwargs_get
      cong: sum.case_cong)

lemma llm_build_truthy:
  "truthy (kwargs_get kw ''message'' PNone) \<Longrightarrow>
     GradioLLM_build_payload kw =
       Inr \<lparr> data = kwargs_get kw ''message'' PNone # map (slot_of kw) (tl documented_defaults_llm),
             fn_index = 0 \<rparr>"
  by (simp add: GradioLLM_build_payload_def documented_defaults_llm_def slot_of_kwargs_get)

lemma llm_build_falsy:
  "\<not> truthy (kwargs_get kw ''message'' PNone) \<Longrightarrow>
     GradioLLM_build_payload kw =
       (case (case py_index0 (kwargs_get kw ''messages''
                 (PList [PDict [(''role'', PStr ''user''), (''content'', PStr '''')]])) of
               Inl e \<Rightarrow> Inl e | Inr f \<Rightarrow> py_getitem_str f ''content'') of
          Inl e \<Rightarrow> Inl e
        | Inr c \<Rightarrow> Inr \<lparr> data = c # map (slot_of kw) (tl documented_defaults_llm), fn_index = 0 \<rparr>)"
  by (simp add: GradioLLM_build_payload_def documented_defaults_llm_def slot_of_kwargs_get
      cong: sum.case_cong)

lemma chat_build_no_messages:
  assumes "kw ''messages'' = None"
  shows "GradioSpaceChat_build_payload kw =
           Inr \<lparr> data = (if truthy (kwargs_get kw ''message'' PNone)
                          then kwargs_get kw ''message'' PNone else PStr '''')
                         # map (slot_of kw) (tl documented_defaults_chat),
                 fn_index = 0 \<rparr>"
proof (cases "truthy (kwargs_get kw ''message'' PNone)")
  case True
  then show ?thesis by (simp add: chat_build_truthy)
next
  case False
  with assms show ?thesis by (simp add: chat_build_falsy kwargs_get_absent)
qed

lemma llm_build_no_messages:
  assumes "kw ''messages'' = None"
  shows "GradioLLM_build_payload kw =
           Inr \<lparr> data = (if truthy (kwargs_get kw ''message'' PNone)
                          then kwargs_get kw ''message'' PNone else PStr '''')
                         # map (slot_of kw) (tl documented_defaults_llm),
                 fn_index = 0 \<rparr>"
proof (cases "truthy (kwargs_get kw ''message'' PNone)")
  case True
  then show ?thesis by (simp add: llm_build_truthy)
next
  case False
  with assms show ?thesis by (simp add: llm_build_falsy kwargs_get_absent)
qed



text \<open>
  C5, as the code has it. Slot 1 is the \<open>message\<close> field when the bag has one that is
  truthy (in particular a non-empty string), whatever \<open>messages\<close> holds. When the bag has
  no \<open>message\<close> or a falsy one (\<open>None\<close>, the empty string, zero, \<open>False\<close>, an empty list
  or dict), slot 1 is the content of the first entry of \<open>messages\<close> when that is a list
  whose first entry is a dict with a \<open>content\<close> key, and the empty string when the bag has
  no \<open>messages\<close>.
\<close>

theorem message_slot_resolution:
  "(\<forall>m. kw ''message'' = Some m \<and> truthy m \<longrightarrow>
       (\<exists>p. GradioSpaceChat_build_payload kw = Inr p \<and> data p ! 0 = m)
     \<and> (\<exists>p. GradioLLM_build_payload kw = Inr p \<and> data p ! 0 = m))
   \<and> (\<forall>d rest c.
         \<not> truthy (kwargs_get kw ''message'' PNone)
         \<and> kw ''messages'' = Some (PList (PDict d # rest)) \<and> map_of d ''content'' = Some c \<longrightarrow>
       (\<exists>p. GradioSpaceChat_build_payload kw = Inr p \<and> data p ! 0 = c)
     \<and> (\<exists>p. GradioLLM_build_payload kw = Inr p \<and> data p ! 0 = c))
   \<and> (\<not> truthy (kwargs_get kw ''message'' PNone) \<and> kw ''messages'' = None \<longrightarrow>
       (\<exists>p. GradioSpaceChat_build_payload kw = Inr p \<and> data p ! 0 = PStr '''')
     \<and> (\<exists>p. GradioLLM_build_payload kw = Inr p \<and> data p ! 0 = PStr ''''))"
proof (intro conjI allI impI)
  fix m assume "kw ''message'' = Some m \<and> truthy m"
  then have t: "truthy (kwargs_get kw ''message'' PNone)" "kwargs_get kw ''message'' PNone = m"
    by (simp_all add: kwargs_get_def)
  show "\<exists>p. GradioSpaceChat_build_payload kw = Inr p \<and> data p ! 0 = m"
    using t by (simp add: chat_build_truthy)
  show "\<exists>p. GradioLLM_build_payload kw = Inr p \<and> data p ! 0 = m"
    using t by (simp add: llm_build_truthy)
next
  fix d rest c
  assume a: "\<not> truthy (kwargs_get kw ''message'' PNone)
         \<and> kw ''messages'' = Some (PList (PDict d # rest)) \<and> map_of d ''content'' = Some c"
  then have ms: "kwargs_get kw ''messages'' x = PList (PDict d # rest)" for x
    by (simp add: kwargs_get_def)
  show "\<exists>p. GradioSpaceChat_build_payload kw = Inr p \<and> data p ! 0 = c"
    using a by (simp add: chat_build_falsy ms)
  show "\<exists>p. GradioLLM_build_payload kw = Inr p \<and> data p ! 0 = c"
    using a by (simp add: llm_build_falsy ms)
next
  assume a: "\<not> truthy (kwargs_get kw ''message'' PNone) \<and> kw ''messages'' = None"
  show "\<exists>p. GradioSpaceChat_build_payload kw = Inr p \<and> data p ! 0 = PStr ''''"
    using a by (simp add: chat_build_no_messages)
  show "\<exists>p. GradioLLM_build_payload kw = Inr p \<and> data p ! 0 = PStr ''''"
    using a by (simp add: llm_build_no_messages)
qed

theorem message_slot_resolution_witness:
  "(\<exists>p. GradioSpaceChat_build_payload
           [''message'' \<mapsto> PStr ''hello'', ''messages'' \<mapsto> PList []] = Inr p
        \<and> data p ! 0 = PStr ''hello'')
   \<and> (\<exists>p. GradioLLM_build_payload
             [''message'' \<mapsto> PNone,
              ''messages'' \<mapsto> PList [PDict [(''role'', PStr ''user''), (''content'', PStr ''hi'')]]]
             = Inr p
          \<and> data p ! 0 = PStr ''hi'')
   \<and> (\<exists>p. GradioLLM_build_payload [''message'' \<mapsto> PInt 0] = Inr p \<and> data p ! 0 = PStr '''')"
proof (intro conjI)
  show "\<exists>p. GradioSpaceChat_build_payload
           [''message'' \<mapsto> PStr ''hello'', ''messages'' \<mapsto> PList []] = Inr p
        \<and> data p ! 0 = PStr ''hello''"
    using message_slot_resolution
      [of "[''message'' \<mapsto> PStr ''hello'', ''messages'' \<mapsto> PList []]"]
    by simp
  show "\<exists>p. GradioLLM_build_payload
             [''message'' \<mapsto> PNone,
              ''messages'' \<mapsto> PList [PDict [(''role'', PStr ''user''), (''content'', PStr ''hi'')]]]
             = Inr p
          \<and> data p ! 0 = PStr ''hi''"
    using message_slot_resolution
      [of "[''message'' \<mapsto> PNone,
            ''messages'' \<mapsto> PList [PDict [(''role'', PStr ''user''), (''content'', PStr ''hi'')]]]"]
    by (simp add: kwargs_get_def)
  show "\<exists>p. GradioLLM_build_payload [''message'' \<mapsto> PInt 0] = Inr p \<and> data p ! 0 = PStr ''''"
    using message_slot_resolution [of "[''message'' \<mapsto> PInt 0]"]
    by (simp add: kwargs_get_def)
qed

text \<open>
  C5 as stated fails: an explicit \<open>message\<close> that is the empty string does not occupy
  slot 1 when \<open>messages\<close> is present; the content of the first of \<open>messages\<close> does.
\<close>

theorem explicit_message_counterexample:
  "GradioSpaceChat_build_payload
     [''message'' \<mapsto> PStr '''',
      ''messages'' \<mapsto> PList [PDict [(''role'', PStr ''user''), (''content'', PStr ''hi'')]]]
   = Inr \<lparr> data = [ PStr ''hi'', PList [], PStr ''Meta-Llama-3.1-8B-Instruct.Q6_K.gguf'',
                    PStr ''You are a helpful assistant.'', PInt 4096, PInt 8192,
                    PFloat 0.1, PFloat 0.95, PInt 40, PFloat 1.0, PBool False ],
           fn_index = 0 \<rparr>
   \<and> PStr ''hi'' \<noteq> PStr ''''"
  by (simp add: GradioSpaceChat_build_payload_def kwargs_get_def)

text \<open>
  C6, as the code has it. The builder validates nothing: slots 2 to 11 carry whatever the
  bag holds under their names. It returns a payload exactly when the message resolves:
  \<open>message\<close> is truthy, or the bag has no \<open>messages\<close>, or \<open>messages\<close> is a list whose first
  entry is a dict with a \<open>content\<close> key. Otherwise the subscripts raise, for an empty
  \<open>messages\<close> list IndexError.
\<close>

theorem build_payload_returns_iff:
  "((\<exists>p. GradioSpaceChat_build_payload kw = Inr p) \<longleftrightarrow>
      truthy (kwargs_get kw ''message'' PNone) \<or> kw ''messages'' = None
      \<or> (\<exists>d rest. kw ''messages'' = Some (PList (PDict d # rest)) \<and> ''content'' \<in> dom (map_of d)))
   \<and> ((\<exists>p. GradioLLM_build_payload kw = Inr p) \<longleftrightarrow>
      truthy (kwargs_get kw ''message'' PNone) \<or> kw ''messages'' = None
      \<or> (\<exists>d rest. kw ''messages'' = Some (PList (PDict d # rest)) \<and> ''content'' \<in> dom (map_of d)))
   \<and> (\<not> truthy (kwargs_get kw ''message'' PNone) \<and> kw ''messages'' = Some (PList []) \<longrightarrow>
        GradioSpaceChat_build_payload kw = Inl IndexError
        \<and> GradioLLM_build_payload kw = Inl IndexError)
   \<and> (\<forall>p k d v. GradioSpaceChat_build_payload kw = Inr p
        \<and> (k, d) \<in> set (tl documented_defaults_chat) \<and> kw k = Some v \<longrightarrow> v \<in> set (tl (data p)))
   \<and> (\<forall>p k d v. GradioLLM_build_payload kw = Inr p
        \<and> (k, d) \<in> set (tl documented_defaults_llm) \<and> kw k = Some v \<longrightarrow> v \<in> set (tl (data p)))"
proof -
  let ?dflt = "PList [PDict [(''role'', PStr ''user''), (''content'', PStr '''')]]"
  let ?first = "case py_index0 (kwargs_get kw ''messages'' ?dflt) of
                  Inl e \<Rightarrow> Inl e | Inr f \<Rightarrow> py_getitem_str f ''content''"
  have first_iff: "(\<exists>c. ?first = Inr c) \<longleftrightarrow>
      kw ''messages'' = None
      \<or> (\<exists>d rest. kw ''messages'' = Some (PList (PDict d # rest)) \<and> ''content'' \<in> dom (map_of d))"
  proof (cases "kw ''messages''")
    case None
    then show ?thesis by (simp add: kwargs_get_def)
  next
    case (Some ms)
    then have "kwargs_get kw ''messages'' ?dflt = ms" by (simp add: kwargs_get_def)
    then show ?thesis
      unfolding first_content_Inr using Some by auto
  qed
  have chat: "(\<exists>p. GradioSpaceChat_build_payload kw = Inr p) \<longleftrightarrow>
      truthy (kwargs_get kw ''message'' PNone) \<or> (\<exists>c. ?first = Inr c)"
  proof (cases "truthy (kwargs_get kw ''message'' PNone)")
    case True
    then show ?thesis by (simp add: chat_build_truthy)
  next
    case False
    then show ?thesis by (cases ?first) (simp_all add: chat_build_falsy)
  qed
  have llm: "(\<exists>p. GradioLLM_build_payload kw = Inr p) \<longleftrightarrow>
      truthy (kwargs_get kw ''message'' PNone) \<or> (\<exists>c. ?first = Inr c)"
  proof (cases "truthy (kwargs_get kw ''message'' PNone)")
    case True
    then show ?thesis by (simp add: llm_build_truthy)
  next
    case False
    then show ?thesis by (cases ?first) (simp_all add: llm_build_falsy)
  qed
  have empty: "GradioSpaceChat_build_payload kw = Inl IndexError
        \<and> GradioLLM_build_payload kw = Inl IndexError"
    if "\<not> truthy (kwargs_get kw ''message'' PNone) \<and> kw ''messages'' = Some (PList [])"
    using that by (simp add: chat_build_falsy llm_build_falsy kwargs_get_present)
  have shape: "tl (data p) = map (slot_of kw) (tl documented_defaults_chat)"
    if "GradioSpaceChat_build_payload kw = Inr p" for p
    using that
    by (cases "truthy (kwargs_get kw ''message'' PNone)")
      (auto simp: chat_build_truthy chat_build_falsy split: sum.splits)
  have shape': "tl (data p) = map (slot_of kw) (tl documented_defaults_llm)"
    if "GradioLLM_build_payload kw = Inr p" for p
    using that
    by (cases "truthy (kwargs_get kw ''message'' PNone)")
      (auto simp: llm_build_truthy llm_build_falsy split: sum.splits)
  have verb: "v \<in> set (map (slot_of kw) ds)" if "(k, d) \<in> set ds" "kw k = Some v" for k d v ds
  proof -
    have "slot_of kw (k, d) = v" using that(2) by (simp add: slot_of_def)
    with that(1) show ?thesis by force
  qed
  show ?thesis
    using chat llm first_iff empty shape shape' verb by (intro conjI allI impI) (simp_all, blast+)
qed

theorem build_payload_returns_iff_witness:
  "GradioLLM_build_payload [''message'' \<mapsto> PStr '''', ''messages'' \<mapsto> PList []] = Inl IndexError
   \<and> (\<exists>p. GradioLLM_build_payload [''top_k'' \<mapsto> PStr ''forty''] = Inr p
          \<and> PStr ''forty'' \<in> set (tl (data p)))"
proof -
  have "GradioLLM_build_payload [''message'' \<mapsto> PStr '''', ''messages'' \<mapsto> PList []] = Inl IndexError"
    using build_payload_returns_iff [of "[''message'' \<mapsto> PStr '''', ''messages'' \<mapsto> PList []]"]
    by (simp add: kwargs_get_def)
  moreover have "\<exists>p. GradioLLM_build_payload [''top_k'' \<mapsto> PStr ''forty''] = Inr p
          \<and> PStr ''forty'' \<in> set (tl (data p))"
  proof -
    have r: "\<exists>p. GradioLLM_build_payload [''top_k'' \<mapsto> PStr ''forty''] = Inr p"
      using build_payload_returns_iff [of "[''top_k'' \<mapsto> PStr ''forty'']"] by simp
    then obtain p where p: "GradioLLM_build_payload [''top_k'' \<mapsto> PStr ''forty''] = Inr p" ..
    have "(''top_k'', PInt 40) \<in> set (tl documented_defaults_llm)"
      by (simp add: documented_defaults_llm_def)
    with p have "PStr ''forty'' \<in> set (tl (data p))"
      using build_payload_returns_iff [of "[''top_k'' \<mapsto> PStr ''forty'']"] by fastforce
    with p show ?thesis by blast
  qed
  ultimately show ?thesis by blast
qed

text \<open>
  C6 as stated fails: the builder raises IndexError on a bag whose \<open>messages\<close> is an empty
  sequence and that has no \<open>message\<close>.
\<close>

theorem build_payload_total_counterexample:
  "GradioSpaceChat_build_payload [''messages'' \<mapsto> PList []] = Inl IndexError
   \<and> GradioLLM_build_payload [''messages'' \<mapsto> PList []] = Inl IndexError"
  by (simp add: GradioSpaceChat_build_payload_def GradioLLM_build_payload_def kwargs_get_def)

section \<open>Properties of the Stream Reassembler\<close>

lemma bytes_decode_Inr: "bytes_decode bs = Inr s \<Longrightarrow> s = bs"
  by (simp add: bytes_decode_def split: if_splits)

lemma data_line_simps:
  "line_empty (Bytes (''data: '' @ c)) = False"
  "startswith_bytes (Bytes (''data: '' @ c)) ''data: '' = Inr True"
  "slice6_decode (Bytes (''data: '' @ c)) = bytes_decode c"
  by simp_all

text \<open>The only line that the loops take for the end marker.\<close>

lemma marker_line:
  assumes "startswith_bytes line ''data: '' = Inr True" and "slice6_decode line = Inr ''[DONE]''"
  shows "line = Bytes ''data: [DONE]''"
proof (cases line)
  case (Text s)
  with assms show ?thesis by simp
next
  case (Bytes bs)
  with assms have t: "take 6 bs = ''data: ''" and d: "drop 6 bs = ''[DONE]''"
    by (auto simp: eval_nat_numeral dest: bytes_decode_Inr)
  have "bs = take 6 bs @ drop 6 bs" by simp
  with t d Bytes show ?thesis by simp
qed

lemma fst_yield: "fst (yield x g) = x # fst g"
  by (simp add: yield_def)

lemma snd_yield: "snd (yield x g) = snd g"
  by (simp add: yield_def)

lemma chat_chunk_unfinished: "\<not> is_finished (GradioSpaceChat_sse_to_chunk t False)"
  by (simp add: GradioSpaceChat_sse_to_chunk_def)

text \<open>Without the marker line, the loop of GradioSpaceChat yields unfinished chunks only.\<close>

lemma chat_loop_no_marker:
  "\<forall>l\<in>set ls. l \<noteq> Bytes ''data: [DONE]'' \<Longrightarrow>
     \<forall>c\<in>set (fst (chat_stream_loop loads buffer ls)). \<not> is_finished c"
proof (induction ls arbitrary: buffer)
  case Nil
  then show ?case by simp
next
  case (Cons line rest)
  then have IH: "\<forall>c\<in>set (fst (chat_stream_loop loads b rest)). \<not> is_finished c" for b
    by simp
  from Cons.prems have nm: "line \<noteq> Bytes ''data: [DONE]''" by simp
  show ?case
  proof (cases "line_empty line")
    case True
    then show ?thesis using IH by simp
  next
    case False
    show ?thesis
    proof (cases "startswith_bytes line ''data: ''")
      case (Inl e)
      with False show ?thesis by simp
    next
      case (Inr b)
      show ?thesis
      proof (cases b)
        case False
        with Inr \<open>\<not> line_empty line\<close> show ?thesis using IH by simp
      next
        case True
        show ?thesis
        proof (cases "slice6_decode line")
          case (Inl e)
          with True Inr \<open>\<not> line_empty line\<close> show ?thesis by simp
        next
          case dec: (Inr c)
          have "c \<noteq> ''[DONE]''"
            using marker_line [of line] Inr True dec nm by auto
          with True Inr dec \<open>\<not> line_empty line\<close> show ?thesis
            using IH by (cases "try_fragment loads buffer c")
              (simp_all add: fst_yield chat_chunk_unfinished)
        qed
      qed
    qed
  qed
qed

text \<open>In every run of that loop, only the last chunk can be finished.\<close>

lemma chat_loop_butlast:
  "\<forall>c\<in>set (butlast (fst (chat_stream_loop loads buffer ls))). \<not> is_finished c"
proof (induction ls arbitrary: buffer)
  case Nil
  then show ?case by simp
next
  case (Cons line rest)
  have IH: "\<forall>c\<in>set (butlast (fst (chat_stream_loop loads b rest))). \<not> is_finished c" for b
    using Cons.IH by simp
  show ?case
    using IH
    by (auto simp: fst_yield chat_chunk_unfinished split: sum.splits bool.splits if_splits)
qed

text \<open>On text lines the prefix test raises at the first line that is not empty.\<close>

lemma chat_loop_text_lines:
  "chat_stream_loop loads buffer (map Text ls) =
     (if \<exists>l\<in>set ls. l \<noteq> [] then ([], Some TypeError) else ([], None))"
  by (induction ls arbitrary: buffer) simp_all

lemma llm_loop_text_lines:
  "stream_space_loop loads buffer (map Text ls) =
     (if \<exists>l\<in>set ls. l \<noteq> [] then ([], Some TypeError) else ([], None))"
  by (induction ls arbitrary: buffer) simp_all

text \<open>The fallback branch of both loops, on a data line whose fragment cannot be appended.\<close>

lemma llm_loop_fallback:
  assumes "bytes_decode c = Inr c" and "c \<noteq> ''[DONE]''" and "try_fragment loads buffer c = Inl e"
  shows "stream_space_loop loads buffer (Bytes (''data: '' @ c) # rest) =
           yield c (stream_space_loop loads buffer rest)"
  using assms by simp

lemma chat_loop_fallback:
  assumes "bytes_decode c = Inr c" and "c \<noteq> ''[DONE]''" and "try_fragment loads buffer c = Inl e"
  shows "chat_stream_loop loads buffer (Bytes (''data: '' @ c) # rest) =
           yield (GradioSpaceChat_sse_to_chunk c False) (chat_stream_loop loads buffer rest)"
  using assms by simp

lemma llm_loop_append:
  assumes "bytes_decode c = Inr c" and "c \<noteq> ''[DONE]''"
    and "try_fragment loads buffer c = Inr buffer'"
  shows "stream_space_loop loads buffer (Bytes (''data: '' @ c) # rest) =
           yield buffer' (stream_space_loop loads buffer' rest)"
  using assms by simp

lemma chat_loop_append:
  assumes "bytes_decode c = Inr c" and "c \<noteq> ''[DONE]''"
    and "try_fragment loads buffer c = Inr buffer'"
  shows "chat_stream_loop loads buffer (Bytes (''data: '' @ c) # rest) =
           yield (GradioSpaceChat_sse_to_chunk buffer' False) (chat_stream_loop loads buffer' rest)"
  using assms by simp

lemma llm_loop_marker:
  "stream_space_loop loads buffer (Bytes ''data: [DONE]'' # rest) =
     (if buffer \<noteq> [] then ([buffer], None) else ([], None))"
  by (simp add: bytes_decode_def)

lemma chat_loop_marker:
  "chat_stream_loop loads buffer (Bytes ''data: [DONE]'' # rest) =
     (if buffer \<noteq> [] then ([GradioSpaceChat_sse_to_chunk buffer True], None) else ([], None))"
  by (simp add: bytes_decode_def)

lemma try_fragment_fails:
  assumes "(\<exists>e. loads c = Inl e)
         \<or> (\<exists>v e. loads c = Inr v \<and> py_index0 v = Inl e)
         \<or> (\<exists>v x. loads c = Inr v \<and> py_index0 v = Inr x \<and> (\<forall>s. x \<noteq> PStr s))"
  shows "\<exists>e. try_fragment loads buffer c = Inl e"
proof -
  have "\<exists>e. str_iadd buffer x = Inl e" if "\<forall>s. x \<noteq> PStr s" for x
    using that by (cases x) simp_all
  with assms show ?thesis
    by (auto simp: try_fragment_def)
qed

lemma llm_streaming_built:
  "GradioLLM_build_payload kw = Inr p \<Longrightarrow>
     GradioLLM_streaming loads kw (stream_response ls) =
       (let g = stream_space_loop loads [] ls;
            chunks = map (\<lambda>partial. sse_to_chunk partial 0 False) (fst g)
        in case snd g of
             Some e \<Rightarrow> (chunks, Some e)
           | None \<Rightarrow> (chunks @ [sse_to_chunk '''' 0 True], None))"
  by (simp add: GradioLLM_streaming_def GradioLLM_stream_space_def stream_response_def)

lemma chat_wrappers_post_raises:
  "GradioSpaceChat_build_payload kw = Inr p \<Longrightarrow>
     get_sync_custom_stream_wrapper loads kw resp = ([], Some TypeError)
     \<and> get_async_custom_stream_wrapper loads kw resp = ([], Some TypeError)"
  by (simp add: get_sync_custom_stream_wrapper_def get_async_custom_stream_wrapper_def
      GradioSpaceChat_transform_request_def GradioSpaceChat_post_def GradioSpaceChat_apost_def)

lemma chat_wrappers_no_chunk:
  "fst (get_sync_custom_stream_wrapper loads kw resp) = []
   \<and> fst (get_async_custom_stream_wrapper loads kw resp) = []"
  by (simp add: get_sync_custom_stream_wrapper_def get_async_custom_stream_wrapper_def
      GradioSpaceChat_post_def GradioSpaceChat_apost_def split: sum.splits)

lemma build_payload_empty:
  "\<exists>p. GradioLLM_build_payload Map.empty = Inr p"
  "\<exists>p. GradioSpaceChat_build_payload Map.empty = Inr p"
  by (simp_all add: GradioLLM_build_payload_def GradioSpaceChat_build_payload_def kwargs_get_def)

lemma json_loads_He: "json_loads ''[\"He\"]'' = Inr (PList [PStr ''He''])"
  by code_simp

lemma json_loads_llo: "json_loads ''[\"llo\"]'' = Inr (PList [PStr ''llo''])"
  by code_simp

lemma json_loads_not_json: "json_loads ''not-json'' = Inl JSONDecodeError"
  by code_simp

lemma json_loads_42: "json_loads ''42'' = Inr (PInt 42)"
  by code_simp

lemma json_loads_list_1: "json_loads ''[1]'' = Inr (PList [PInt 1])"
  by code_simp

text \<open>
  C9. In both stream wrappers of GradioSpaceChat the prefix test applies \<open>startswith\<close> with
  a bytes pattern to a text line, which raises TypeError: no text line matches the prefix,
  and on text lines, at least one of them not empty, the loop ends with TypeError and has
  yielded no chunk, from whatever buffer. On every response that streams such lines each
  wrapper ends with TypeError and has yielded no chunk; it does so already when it posts
  the request.
\<close>

theorem chat_wrappers_raise_on_text_lines:
  assumes "GradioSpaceChat_build_payload kw = Inr p"
    and "\<not> raises_for_status resp"
    and "iter_lines resp = map Text ls"
    and "\<exists>l\<in>set ls. l \<noteq> []"
  shows "get_sync_custom_stream_wrapper loads kw resp = ([], Some TypeError)
       \<and> get_async_custom_stream_wrapper loads kw resp = ([], Some TypeError)
       \<and> (\<forall>s. startswith_bytes (Text s) ''data: '' = Inl TypeError)
       \<and> (\<forall>buffer. chat_stream_loop loads buffer (iter_lines resp) = ([], Some TypeError))"
  using assms chat_wrappers_post_raises [of kw p loads resp]
  by (simp add: chat_loop_text_lines)

theorem chat_wrappers_raise_on_text_lines_witness:
  "\<not> raises_for_status (stream_response (map Text hello_lines))
   \<and> (\<exists>l\<in>set hello_lines. l \<noteq> [])
   \<and> get_sync_custom_stream_wrapper json_loads Map.empty (stream_response (map Text hello_lines))
       = ([], Some TypeError)
   \<and> get_async_custom_stream_wrapper json_loads Map.empty (stream_response (map Text hello_lines))
       = ([], Some TypeError)
   \<and> chat_stream_loop json_loads [] (map Text hello_lines) = ([], Some TypeError)"
proof -
  obtain p where p: "GradioSpaceChat_build_payload Map.empty = Inr p"
    using build_payload_empty(2) ..
  have h: "\<not> raises_for_status (stream_response (map Text hello_lines))"
      "iter_lines (stream_response (map Text hello_lines)) = map Text hello_lines"
      "\<exists>l\<in>set hello_lines. l \<noteq> []"
    by (simp_all add: stream_response_def hello_lines_def)
  show ?thesis
    using chat_wrappers_raise_on_text_lines [OF p h, of json_loads] h by simp
qed

text \<open>
  C10. The fallback branch is taken whenever a step between the prefix test and the
  \<open>yield\<close> fails: the decoder raises, or the decoded value cannot be subscripted with \<open>0\<close>
  (the number 42), or its first element is not a string. On such a data line both loops
  yield the raw content of the line, unfinished, and go on with the buffer they had.
\<close>

theorem fallback_on_any_extraction_failure:
  assumes "bytes_decode c = Inr c"
    and "c \<noteq> ''[DONE]''"
    and "(\<exists>e. loads c = Inl e)
         \<or> (\<exists>v e. loads c = Inr v \<and> py_index0 v = Inl e)
         \<or> (\<exists>v x. loads c = Inr v \<and> py_index0 v = Inr x \<and> (\<forall>s. x \<noteq> PStr s))"
  shows "stream_space_loop loads buffer (Bytes (''data: '' @ c) # rest) =
           yield c (stream_space_loop loads buffer rest)
       \<and> chat_stream_loop loads buffer (Bytes (''data: '' @ c) # rest) =
           yield (GradioSpaceChat_sse_to_chunk c False) (chat_stream_loop loads buffer rest)
       \<and> \<not> is_finished (GradioSpaceChat_sse_to_chunk c False)
       \<and> text (GradioSpaceChat_sse_to_chunk c False) = c
       \<and> (\<forall>kw p. GradioLLM_build_payload kw = Inr p \<longrightarrow>
            GradioLLM_streaming loads kw (stream_response (Bytes (''data: '' @ c) # rest)) =
              yield (sse_to_chunk c 0 False) (GradioLLM_streaming loads kw (stream_response rest)))"
proof -
  obtain e where e: "try_fragment loads buffer c = Inl e"
    using try_fragment_fails [where loads=loads and c=c and buffer=buffer] assms(3) by blast
  obtain e' where e': "try_fragment loads [] c = Inl e'"
    using try_fragment_fails [where loads=loads and c=c and buffer="[]"] assms(3) by blast
  have a: "stream_space_loop loads buffer (Bytes (''data: '' @ c) # rest) =
           yield c (stream_space_loop loads buffer rest)"
    by (rule llm_loop_fallback [OF assms(1,2) e])
  have b: "chat_stream_loop loads buffer (Bytes (''data: '' @ c) # rest) =
           yield (GradioSpaceChat_sse_to_chunk c False) (chat_stream_loop loads buffer rest)"
    by (rule chat_loop_fallback [OF assms(1,2) e])
  have s: "GradioLLM_streaming loads kw (stream_response (Bytes (''data: '' @ c) # rest)) =
              yield (sse_to_chunk c 0 False) (GradioLLM_streaming loads kw (stream_response rest))"
    if "GradioLLM_build_payload kw = Inr p" for kw p
    unfolding llm_streaming_built [OF that] llm_loop_fallback [OF assms(1,2) e']
    by (simp add: yield_def Let_def split: option.splits)
  show ?thesis
    using a b s by (simp add: GradioSpaceChat_sse_to_chunk_def)
qed

theorem fallback_on_any_extraction_failure_witness:
  "json_loads ''42'' = Inr (PInt 42) \<and> py_index0 (PInt 42) = Inl TypeError
   \<and> stream_space_loop json_loads ''He'' [Bytes ''data: 42'', Bytes ''data: [DONE]'']
       = ([''42'', ''He''], None)
   \<and> json_loads ''[1]'' = Inr (PList [PInt 1])
   \<and> chat_stream_loop json_loads ''He'' [Bytes ''data: [1]'', Bytes ''data: [DONE]''] =
       ([GradioSpaceChat_sse_to_chunk ''[1]'' False, GradioSpaceChat_sse_to_chunk ''He'' True], None)"
proof -
  have d: "bytes_decode ''42'' = Inr ''42''" "bytes_decode ''[1]'' = Inr ''[1]''"
    by (simp_all add: bytes_decode_def)
  have n: "''42'' \<noteq> ''[DONE]''" "''[1]'' \<noteq> ''[DONE]''"
    by simp_all
  have f1: "(\<exists>e. json_loads ''42'' = Inl e)
         \<or> (\<exists>v e. json_loads ''42'' = Inr v \<and> py_index0 v = Inl e)
         \<or> (\<exists>v x. json_loads ''42'' = Inr v \<and> py_index0 v = Inr x \<and> (\<forall>s. x \<noteq> PStr s))"
    by (simp add: json_loads_42)
  have f2: "(\<exists>e. json_loads ''[1]'' = Inl e)
         \<or> (\<exists>v e. json_loads ''[1]'' = Inr v \<and> py_index0 v = Inl e)
         \<or> (\<exists>v x. json_loads ''[1]'' = Inr v \<and> py_index0 v = Inr x \<and> (\<forall>s. x \<noteq> PStr s))"
    by (simp add: json_loads_list_1)
  have "stream_space_loop json_loads ''He'' [Bytes ''data: 42'', Bytes ''data: [DONE]'']
       = ([''42'', ''He''], None)"
    using fallback_on_any_extraction_failure
      [where c="''42''" and loads=json_loads and buffer="''He''"
         and rest="[Bytes ''data: [DONE]'']"] d(1) n(1) f1
    by (simp add: yield_def llm_loop_marker del: stream_space_loop.simps)
  moreover have "chat_stream_loop json_loads ''He'' [Bytes ''data: [1]'', Bytes ''data: [DONE]''] =
       ([GradioSpaceChat_sse_to_chunk ''[1]'' False, GradioSpaceChat_sse_to_chunk ''He'' True], None)"
    using fallback_on_any_extraction_failure
      [where c="''[1]''" and loads=json_loads and buffer="''He''"
         and rest="[Bytes ''data: [DONE]'']"] d(2) n(2) f2
    by (simp add: yield_def chat_loop_marker del: chat_stream_loop.simps)
  ultimately show ?thesis
    by (simp add: json_loads_42 json_loads_list_1)
qed

lemma llm_chunk_unfinished: "\<not> is_finished (sse_to_chunk t i False)"
  by (simp add: sse_to_chunk_def)

text \<open>
  C4, as the code has it. In the wrappers of GradioSpaceChat a finished chunk is yielded
  only in reaction to the end marker: a stream that never carries the marker gives no
  finished chunk, and in every stream only the last chunk can be finished; the same holds
  of their loop, from whatever buffer and on whatever lines.
  \<open>GradioLLM.streaming\<close> does not depend on the marker: whenever the stream ends without
  an exception it yields exactly one finished chunk, the last one, with the empty text,
  after unfinished chunks only; when an exception ends it, no chunk is finished.
\<close>

theorem finished_chunk_origin:
  "((\<forall>l\<in>set (iter_lines resp). l \<noteq> Bytes ''data: [DONE]'') \<longrightarrow>
      (\<forall>c\<in>set (fst (get_sync_custom_stream_wrapper loads kw resp)). \<not> is_finished c)
    \<and> (\<forall>c\<in>set (fst (get_async_custom_stream_wrapper loads kw resp)). \<not> is_finished c))
   \<and> (\<forall>c\<in>set (butlast (fst (get_sync_custom_stream_wrapper loads kw resp))). \<not> is_finished c)
   \<and> (\<forall>c\<in>set (butlast (fst (get_async_custom_stream_wrapper loads kw resp))). \<not> is_finished c)
   \<and> (snd (GradioLLM_streaming loads kw resp) = None \<longrightarrow>
        (\<exists>cs. fst (GradioLLM_streaming loads kw resp) = cs @ [sse_to_chunk '''' 0 True]
             \<and> (\<forall>c\<in>set cs. \<not> is_finished c)))
   \<and> (snd (GradioLLM_streaming loads kw resp) \<noteq> None \<longrightarrow>
        (\<forall>c\<in>set (fst (GradioLLM_streaming loads kw resp)). \<not> is_finished c))
   \<and> (\<forall>buffer. (\<forall>l\<in>set (iter_lines resp). l \<noteq> Bytes ''data: [DONE]'') \<longrightarrow>
        (\<forall>c\<in>set (fst (chat_stream_loop loads buffer (iter_lines resp))). \<not> is_finished c))
   \<and> (\<forall>buffer. \<forall>c\<in>set (butlast (fst (chat_stream_loop loads buffer (iter_lines resp)))).
        \<not> is_finished c)"
proof (intro conjI impI allI)
  show "\<forall>c\<in>set (fst (get_sync_custom_stream_wrapper loads kw resp)). \<not> is_finished c"
    by (simp add: chat_wrappers_no_chunk)
  show "\<forall>c\<in>set (fst (get_async_custom_stream_wrapper loads kw resp)). \<not> is_finished c"
    by (simp add: chat_wrappers_no_chunk)
next
  show "\<forall>c\<in>set (butlast (fst (get_sync_custom_stream_wrapper loads kw resp))). \<not> is_finished c"
    by (simp add: chat_wrappers_no_chunk)
  show "\<forall>c\<in>set (butlast (fst (get_async_custom_stream_wrapper loads kw resp))). \<not> is_finished c"
    by (simp add: chat_wrappers_no_chunk)
next
  assume "snd (GradioLLM_streaming loads kw resp) = None"
  then show "\<exists>cs. fst (GradioLLM_streaming loads kw resp) = cs @ [sse_to_chunk '''' 0 True]
             \<and> (\<forall>c\<in>set cs. \<not> is_finished c)"
    by (auto simp: GradioLLM_streaming_def Let_def llm_chunk_unfinished
        split: sum.splits option.splits)
next
  assume "snd (GradioLLM_streaming loads kw resp) \<noteq> None"
  then show "\<forall>c\<in>set (fst (GradioLLM_streaming loads kw resp)). \<not> is_finished c"
    by (auto simp: GradioLLM_streaming_def Let_def llm_chunk_unfinished
        split: sum.splits option.splits)
next
  fix buffer
  assume "\<forall>l\<in>set (iter_lines resp). l \<noteq> Bytes ''data: [DONE]''"
  then show "\<forall>c\<in>set (fst (chat_stream_loop loads buffer (iter_lines resp))). \<not> is_finished c"
    by (rule chat_loop_no_marker)
next
  fix buffer
  show "\<forall>c\<in>set (butlast (fst (chat_stream_loop loads buffer (iter_lines resp)))). \<not> is_finished c"
    by (rule chat_loop_butlast)
qed

lemma he_only_llm:
  "GradioLLM_streaming json_loads Map.empty (stream_response [Bytes ''data: [\"He\"]'']) =
     ([sse_to_chunk ''He'' 0 False, sse_to_chunk '''' 0 True], None)"
proof -
  obtain p where p: "GradioLLM_build_payload Map.empty = Inr p"
    using build_payload_empty(1) ..
  show ?thesis
    unfolding llm_streaming_built [OF p]
    by (simp add: bytes_decode_def try_fragment_def json_loads_He yield_def)
qed

theorem finished_chunk_origin_witness:
  "list_all (\<lambda>l. l \<noteq> Bytes ''data: [DONE]'')
     (iter_lines (stream_response [Bytes ''data: [\"He\"]'']))
   \<and> list_all (\<lambda>c. \<not> is_finished c)
       (fst (get_sync_custom_stream_wrapper json_loads Map.empty
               (stream_response [Bytes ''data: [\"He\"]''])))
   \<and> list_all (\<lambda>c. \<not> is_finished c)
       (fst (chat_stream_loop json_loads []
               (iter_lines (stream_response [Bytes ''data: [\"He\"]'']))))
   \<and> snd (GradioLLM_streaming json_loads Map.empty (stream_response [Bytes ''data: [\"He\"]''])) = None
   \<and> (\<exists>cs. fst (GradioLLM_streaming json_loads Map.empty (stream_response [Bytes ''data: [\"He\"]'']))
             = cs @ [sse_to_chunk '''' 0 True]
          \<and> list_all (\<lambda>c. \<not> is_finished c) cs)"
proof -
  have nm: "\<forall>l\<in>set (iter_lines (stream_response [Bytes ''data: [\"He\"]''])). l \<noteq> Bytes ''data: [DONE]''"
    by (simp add: stream_response_def)
  have ok: "snd (GradioLLM_streaming json_loads Map.empty (stream_response [Bytes ''data: [\"He\"]''])) = None"
    by (simp add: he_only_llm)
  show ?thesis
    unfolding list_all_iff
    using finished_chunk_origin
      [of "stream_response [Bytes ''data: [\"He\"]'']" json_loads Map.empty] nm ok
    by blast
qed

text \<open>
  C4 as stated fails for \<open>GradioLLM.streaming\<close>: the stream below closes without the end
  marker, and the second chunk yielded is finished.
\<close>

theorem no_marker_finished_counterexample:
  "map observe (fst (GradioLLM_streaming json_loads Map.empty
                       (stream_response [Bytes ''data: [\"He\"]''])))
     = [(''He'', False), ('''', True)]
   \<and> Bytes ''data: [\"He\"]'' \<noteq> Bytes ''data: [DONE]''"
  by (simp add: he_only_llm observe_def sse_to_chunk_def)

lemma llm_stream_space_response:
  "GradioLLM_stream_space loads p (stream_response ls) = stream_space_loop loads [] ls"
  by (simp add: GradioLLM_stream_space_def stream_response_def)

text \<open>The two streaming scenarios, run by the loop of GradioLLM, for a decoder that reads their lines.\<close>

lemma hello_llm_loop:
  assumes "loads ''[\"He\"]'' = Inr (PList [PStr ''He''])"
    and "loads ''[\"llo\"]'' = Inr (PList [PStr ''llo''])"
  shows "stream_space_loop loads [] (map Bytes hello_lines) = ([''He'', ''Hello'', ''Hello''], None)"
  using assms by (simp add: hello_lines_def bytes_decode_def try_fragment_def yield_def)

lemma malformed_llm_loop:
  assumes "loads ''[\"He\"]'' = Inr (PList [PStr ''He''])"
    and "loads ''not-json'' = Inl e"
  shows "stream_space_loop loads [] (map Bytes malformed_lines) = ([''He'', ''not-json'', ''He''], None)"
  using assms by (simp add: malformed_lines_def bytes_decode_def try_fragment_def yield_def)

text \<open>
  C2, as the code has it in GradioLLM. On the byte lines \<open>data: ["He"]\<close>, \<open>data: ["llo"]\<close>,
  \<open>data: [DONE]\<close>, each fragment is appended to the buffer and every value yielded carries
  the cumulative buffer: \<open>GradioLLM._stream_space\<close> yields "He", "Hello" and, at the marker
  with its buffer not empty, "Hello" once more. \<open>GradioLLM.streaming\<close> turns all three
  into unfinished chunks and then yields exactly one finished chunk, with the empty text.
\<close>

theorem hello_stream_chunks:
  assumes "loads ''[\"He\"]'' = Inr (PList [PStr ''He''])"
    and "loads ''[\"llo\"]'' = Inr (PList [PStr ''llo''])"
  shows "(\<forall>p. GradioLLM_stream_space loads p (stream_response (map Bytes hello_lines)) =
              ([''He'', ''Hello'', ''Hello''], None))
       \<and> (\<forall>p. GradioLLM_build_payload kw = Inr p \<longrightarrow>
            GradioLLM_streaming loads kw (stream_response (map Bytes hello_lines)) =
              ([sse_to_chunk ''He'' 0 False, sse_to_chunk ''Hello'' 0 False,
                sse_to_chunk ''Hello'' 0 False, sse_to_chunk '''' 0 True], None))"
  using hello_llm_loop [OF assms]
  by (auto simp: llm_streaming_built llm_stream_space_response)

theorem hello_stream_chunks_witness:
  "json_loads ''[\"He\"]'' = Inr (PList [PStr ''He''])
   \<and> json_loads ''[\"llo\"]'' = Inr (PList [PStr ''llo''])
   \<and> GradioLLM_stream_space json_loads \<lparr> data = [], fn_index = 0 \<rparr>
         (stream_response (map Bytes hello_lines))
       = ([''He'', ''Hello'', ''Hello''], None)
   \<and> GradioLLM_streaming json_loads Map.empty (stream_response (map Bytes hello_lines))
       = ([sse_to_chunk ''He'' 0 False, sse_to_chunk ''Hello'' 0 False,
           sse_to_chunk ''Hello'' 0 False, sse_to_chunk '''' 0 True], None)"
proof -
  obtain p where p: "GradioLLM_build_payload Map.empty = Inr p"
    using build_payload_empty(1) ..
  show ?thesis
    using hello_stream_chunks [OF json_loads_He json_loads_llo, of Map.empty] p
    by (simp add: json_loads_He json_loads_llo)
qed

text \<open>
  C2 as stated fails for \<open>GradioLLM.streaming\<close>: it yields four chunks, "Hello" twice
  unfinished, and its finished chunk has the empty text.
\<close>

theorem hello_stream_counterexample:
  "map observe (fst (GradioLLM_streaming json_loads Map.empty
                       (stream_response (map Bytes hello_lines))))
     = [(''He'', False), (''Hello'', False), (''Hello'', False), ('''', True)]
   \<and> map observe (fst (GradioLLM_streaming json_loads Map.empty
                       (stream_response (map Bytes hello_lines))))
     \<noteq> [(''He'', False), (''Hello'', False), (''Hello'', True)]"
proof -
  obtain p where p: "GradioLLM_build_payload Map.empty = Inr p"
    using build_payload_empty(1) ..
  show ?thesis
    unfolding llm_streaming_built [OF p] hello_llm_loop [OF json_loads_He json_loads_llo]
    by (simp add: observe_def sse_to_chunk_def)
qed

text \<open>
  C3, as the code has it in GradioLLM. On the byte lines \<open>data: ["He"]\<close>, \<open>data: not-json\<close>,
  \<open>data: [DONE]\<close>, the second value yielded is the raw content "not-json" and the buffer
  stays "He": \<open>GradioLLM._stream_space\<close> yields "He", "not-json" and, at the marker, the
  buffer "He", into which the raw content was never merged. \<open>GradioLLM.streaming\<close> makes
  the three unfinished chunks and then yields exactly one finished chunk, with the empty
  text.
\<close>

theorem malformed_stream_chunks:
  assumes "loads ''[\"He\"]'' = Inr (PList [PStr ''He''])"
    and "loads ''not-json'' = Inl e"
  shows "(\<forall>p. GradioLLM_stream_space loads p (stream_response (map Bytes malformed_lines)) =
              ([''He'', ''not-json'', ''He''], None))
       \<and> (\<forall>p. GradioLLM_build_payload kw = Inr p \<longrightarrow>
            GradioLLM_streaming loads kw (stream_response (map Bytes malformed_lines)) =
              ([sse_to_chunk ''He'' 0 False, sse_to_chunk ''not-json'' 0 False,
                sse_to_chunk ''He'' 0 False, sse_to_chunk '''' 0 True], None))"
  using malformed_llm_loop [OF assms]
  by (auto simp: llm_streaming_built llm_stream_space_response)

theorem malformed_stream_chunks_witness:
  "json_loads ''[\"He\"]'' = Inr (PList [PStr ''He''])
   \<and> json_loads ''not-json'' = Inl JSONDecodeError
   \<and> GradioLLM_stream_space json_loads \<lparr> data = [], fn_index = 0 \<rparr>
         (stream_response (map Bytes malformed_lines))
       = ([''He'', ''not-json'', ''He''], None)
   \<and> GradioLLM_streaming json_loads Map.empty (stream_response (map Bytes malformed_lines))
       = ([sse_to_chunk ''He'' 0 False, sse_to_chunk ''not-json'' 0 False,
           sse_to_chunk ''He'' 0 False, sse_to_chunk '''' 0 True], None)"
proof -
  obtain p where p: "GradioLLM_build_payload Map.empty = Inr p"
    using build_payload_empty(1) ..
  show ?thesis
    using malformed_stream_chunks [OF json_loads_He json_loads_not_json, of Map.empty] p
    by (simp add: json_loads_He json_loads_not_json)
qed

text \<open>
  C3 as stated fails for \<open>GradioLLM.streaming\<close>: the text of its finished chunk is empty,
  not "He".
\<close>

theorem malformed_stream_counterexample:
  "map observe (fst (GradioLLM_streaming json_loads Map.empty
                       (stream_response (map Bytes malformed_lines))))
     = [(''He'', False), (''not-json'', False), (''He'', False), ('''', True)]
   \<and> last (map observe (fst (GradioLLM_streaming json_loads Map.empty
                       (stream_response (map Bytes malformed_lines)))))
     \<noteq> (''He'', True)"
proof -
  obtain p where p: "GradioLLM_build_payload Map.empty = Inr p"
    using build_payload_empty(1) ..
  show ?thesis
    unfolding llm_streaming_built [OF p] malformed_llm_loop [OF json_loads_He json_loads_not_json]
    by (simp add: observe_def sse_to_chunk_def)
qed

section \<open>Properties of the Response Decoder\<close>

text \<open>\<open>raw["data"][0]\<close> succeeds exactly on a dict whose \<open>data\<close> is a list or a string that is not empty.\<close>

lemma data0_Inr_iff:
  "(\<exists>x. (case py_getitem_str raw ''data'' of Inl e \<Rightarrow> Inl e | Inr d \<Rightarrow> py_index0 d) = Inr x)
     \<longleftrightarrow> (\<exists>d v. raw = PDict d \<and> map_of d ''data'' = Some v
            \<and> ((\<exists>x xs. v = PList (x # xs)) \<or> (\<exists>c cs. v = PStr (c # cs))))"
proof (cases raw)
  case (PDict d)
  show ?thesis
  proof (cases "map_of d ''data''")
    case None
    with PDict show ?thesis by simp
  next
    case (Some v)
    show ?thesis
    proof (cases v)
      case (PList xs)
      with PDict Some show ?thesis by (cases xs) simp_all
    next
      case (PStr s)
      with PDict Some show ?thesis by (cases s) simp_all
    qed (use PDict Some in simp_all)
  qed
qed simp_all

lemma data0_fails:
  assumes "\<not> (\<exists>d v. raw = PDict d \<and> map_of d ''data'' = Some v
            \<and> ((\<exists>x xs. v = PList (x # xs)) \<or> (\<exists>c cs. v = PStr (c # cs))))"
  shows "(\<exists>e. py_getitem_str raw ''data'' = Inl e)
       \<or> (\<exists>d e. py_getitem_str raw ''data'' = Inr d \<and> py_index0 d = Inl e)"
proof -
  have "\<not> (\<exists>x. (case py_getitem_str raw ''data'' of Inl e \<Rightarrow> Inl e | Inr d \<Rightarrow> py_index0 d) = Inr x)"
    using assms unfolding data0_Inr_iff .
  then show ?thesis
    by (cases "py_getitem_str raw ''data''"; cases "py_index0 (projr (py_getitem_str raw ''data''))")
      auto
qed

lemma json_loads_hello: "json_loads ''{\"data\": [\"hello\"]}'' = Inr (PDict [(''data'', PList [PStr ''hello''])])"
  by code_simp

lemma json_loads_hello_str: "json_loads ''{\"data\": \"hello\"}'' = Inr (PDict [(''data'', PStr ''hello'')])"
  by code_simp

lemma json_loads_data_1: "json_loads ''{\"data\": [1]}'' = Inr (PDict [(''data'', PList [PInt 1])])"
  by code_simp

lemma json_loads_empty_object: "json_loads ''{}'' = Inr (PDict [])"
  by code_simp

text \<open>
  C7. For a response whose body decodes to \<open>{"data": ["hello"]}\<close>, \<open>transform_response\<close>
  returns a result with exactly one choice, of role "assistant", content "hello", finish
  reason "stop" and index 0, and with the three usage counts zero; \<open>_call_space\<close> returns
  the text "hello".
\<close>

theorem decode_hello:
  assumes "loads (body resp) = Inr (PDict [(''data'', PList [PStr ''hello''])])"
  shows "transform_response loads resp =
           Inr \<lparr> model = ''gradio-llama'',
                 choices =
                   [ \<lparr> choice_message = \<lparr> role = ''assistant'', content = PStr ''hello'' \<rparr>,
                       choice_finish_reason = ''stop'',
                       choice_index = 0 \<rparr> ],
                 response_usage =
                   \<lparr> completion_tokens = 0, prompt_tokens = 0, total_tokens = 0 \<rparr> \<rparr>
       \<and> (\<not> raises_for_status resp \<longrightarrow>
            (\<forall>p. GradioLLM_call_space loads p resp = Inr (PStr ''hello'')))"
  using assms
  by (simp add: transform_response_def ModelResponse_init_def GradioLLM_call_space_def name_def)

theorem decode_hello_witness:
  "json_loads (body (json_response ''{\"data\": [\"hello\"]}''))
     = Inr (PDict [(''data'', PList [PStr ''hello''])])
   \<and> \<not> raises_for_status (json_response ''{\"data\": [\"hello\"]}'')
   \<and> transform_response json_loads (json_response ''{\"data\": [\"hello\"]}'') =
           Inr \<lparr> model = ''gradio-llama'',
                 choices =
                   [ \<lparr> choice_message = \<lparr> role = ''assistant'', content = PStr ''hello'' \<rparr>,
                       choice_finish_reason = ''stop'',
                       choice_index = 0 \<rparr> ],
                 response_usage =
                   \<lparr> completion_tokens = 0, prompt_tokens = 0, total_tokens = 0 \<rparr> \<rparr>
   \<and> GradioLLM_call_space json_loads \<lparr> data = [], fn_index = 0 \<rparr>
        (json_response ''{\"data\": [\"hello\"]}'') = Inr (PStr ''hello'')"
proof -
  have h: "json_loads (body (json_response ''{\"data\": [\"hello\"]}''))
     = Inr (PDict [(''data'', PList [PStr ''hello''])])"
    by (simp add: json_response_def json_loads_hello)
  have s: "\<not> raises_for_status (json_response ''{\"data\": [\"hello\"]}'')"
    by (simp add: json_response_def)
  show ?thesis
    using decode_hello
      [where loads=json_loads and resp="json_response ''{\"data\": [\"hello\"]}''"] h s
    by simp
qed

text \<open>
  C8, as the code has it. The decoder raises whenever the body is not valid JSON (the
  exception of the JSON decoder), or does not decode to an object with a \<open>data\<close> entry, or
  that entry is neither an array nor a string with at least one element (Python's
  TypeError, KeyError or IndexError; for the body \<open>{}\<close>, KeyError). Nothing catches the
  exception and no result is produced. \<open>_call_space\<close> raises in the same cases and when the
  status check raises. A \<open>data\<close> entry that is a string with at least one character is
  accepted, and its first character becomes the text. In \<open>transform_response\<close> an array
  whose first element is a number, a truth value, an array or an object is rejected by the
  constructor of the result (ValidationError).
\<close>

theorem decode_failures:
  "(\<forall>e. loads (body resp) = Inl e \<longrightarrow>
       transform_response loads resp = Inl e
       \<and> (\<not> raises_for_status resp \<longrightarrow> GradioLLM_call_space loads p resp = Inl e))
   \<and> (\<forall>raw. loads (body resp) = Inr raw
         \<and> \<not> (\<exists>d v. raw = PDict d \<and> map_of d ''data'' = Some v
                \<and> ((\<exists>x xs. v = PList (x # xs)) \<or> (\<exists>c cs. v = PStr (c # cs)))) \<longrightarrow>
       (\<exists>e. transform_response loads resp = Inl e)
       \<and> (\<exists>e. GradioLLM_call_space loads p resp = Inl e))
   \<and> (loads (body resp) = Inr (PDict []) \<longrightarrow>
         transform_response loads resp = Inl KeyError
         \<and> (\<not> raises_for_status resp \<longrightarrow> GradioLLM_call_space loads p resp = Inl KeyError))
   \<and> (raises_for_status resp \<longrightarrow> GradioLLM_call_space loads p resp = Inl HTTPStatusError)
   \<and> (\<forall>d c cs. loads (body resp) = Inr (PDict d) \<and> map_of d ''data'' = Some (PStr (c # cs)) \<longrightarrow>
         transform_response loads resp =
           Inr \<lparr> model = ''gradio-llama'',
                 choices =
                   [ \<lparr> choice_message =
                         \<lparr> role = ''assistant'', content = PStr (take (utf8_width c) (c # cs)) \<rparr>,
                       choice_finish_reason = ''stop'',
                       choice_index = 0 \<rparr> ],
                 response_usage =
                   \<lparr> completion_tokens = 0, prompt_tokens = 0, total_tokens = 0 \<rparr> \<rparr>
         \<and> (\<not> raises_for_status resp \<longrightarrow>
              GradioLLM_call_space loads p resp = Inr (PStr (take (utf8_width c) (c # cs)))))
   \<and> (\<forall>d x xs. loads (body resp) = Inr (PDict d) \<and> map_of d ''data'' = Some (PList (x # xs))
         \<and> x \<noteq> PNone \<and> (\<forall>s. x \<noteq> PStr s) \<longrightarrow>
         transform_response loads resp = Inl ValidationError)"
proof -
  have c1: "transform_response loads resp = Inl e
       \<and> (\<not> raises_for_status resp \<longrightarrow> GradioLLM_call_space loads p resp = Inl e)"
    if "loads (body resp) = Inl e" for e
    using that by (simp add: transform_response_def GradioLLM_call_space_def)
  have c2: "(\<exists>e. transform_response loads resp = Inl e)
       \<and> (\<exists>e. GradioLLM_call_space loads p resp = Inl e)"
    if a: "loads (body resp) = Inr raw
         \<and> \<not> (\<exists>d v. raw = PDict d \<and> map_of d ''data'' = Some v
                \<and> ((\<exists>x xs. v = PList (x # xs)) \<or> (\<exists>c cs. v = PStr (c # cs))))" for raw
  proof -
    have f: "(\<exists>e. py_getitem_str raw ''data'' = Inl e)
       \<or> (\<exists>d e. py_getitem_str raw ''data'' = Inr d \<and> py_index0 d = Inl e)"
      using a data0_fails [of raw] by blast
    from a f show ?thesis
      by (auto simp: transform_response_def GradioLLM_call_space_def)
  qed
  have c3: "transform_response loads resp = Inl KeyError
         \<and> (\<not> raises_for_status resp \<longrightarrow> GradioLLM_call_space loads p resp = Inl KeyError)"
    if "loads (body resp) = Inr (PDict [])"
    using that by (simp add: transform_response_def GradioLLM_call_space_def)
  have c4: "GradioLLM_call_space loads p resp = Inl HTTPStatusError" if "raises_for_status resp"
    using that by (simp add: GradioLLM_call_space_def)
  have c5: "transform_response loads resp =
           Inr \<lparr> model = ''gradio-llama'',
                 choices =
                   [ \<lparr> choice_message =
                         \<lparr> role = ''assistant'', content = PStr (take (utf8_width c) (c # cs)) \<rparr>,
                       choice_finish_reason = ''stop'',
                       choice_index = 0 \<rparr> ],
                 response_usage =
                   \<lparr> completion_tokens = 0, prompt_tokens = 0, total_tokens = 0 \<rparr> \<rparr>
         \<and> (\<not> raises_for_status resp \<longrightarrow>
              GradioLLM_call_space loads p resp = Inr (PStr (take (utf8_width c) (c # cs))))"
    if "loads (body resp) = Inr (PDict d) \<and> map_of d ''data'' = Some (PStr (c # cs))" for d c cs
    using that
    by (simp add: transform_response_def ModelResponse_init_def GradioLLM_call_space_def name_def
        del: take_Cons')
  have c6: "transform_response loads resp = Inl ValidationError"
    if a: "loads (body resp) = Inr (PDict d) \<and> map_of d ''data'' = Some (PList (x # xs))
         \<and> x \<noteq> PNone \<and> (\<forall>s. x \<noteq> PStr s)" for d x xs
  proof -
    from a have "\<not> valid_content x" by (cases x) simp_all
    with a show ?thesis
      by (simp add: transform_response_def ModelResponse_init_def)
  qed
  show ?thesis
    using c1 c2 c3 c4 c5 c6 by blast
qed

theorem decode_failures_witness:
  "json_loads (body (json_response ''{}'')) = Inr (PDict [])
   \<and> transform_response json_loads (json_response ''{}'') = Inl KeyError
   \<and> GradioLLM_call_space json_loads \<lparr> data = [], fn_index = 0 \<rparr> (json_response ''{}'')
       = Inl KeyError
   \<and> json_loads (body (json_response ''not-json'')) = Inl JSONDecodeError
   \<and> transform_response json_loads (json_response ''not-json'') = Inl JSONDecodeError
   \<and> json_loads (body (json_response ''{\"data\": [1]}'')) = Inr (PDict [(''data'', PList [PInt 1])])
   \<and> transform_response json_loads (json_response ''{\"data\": [1]}'') = Inl ValidationError"
proof -
  have h: "json_loads (body (json_response ''{}'')) = Inr (PDict [])"
      "json_loads (body (json_response ''not-json'')) = Inl JSONDecodeError"
      "json_loads (body (json_response ''{\"data\": [1]}'')) = Inr (PDict [(''data'', PList [PInt 1])])"
      "\<not> raises_for_status (json_response ''{}'')"
    by (simp_all add: json_response_def json_loads_empty_object json_loads_not_json json_loads_data_1)
  have v: "transform_response json_loads (json_response ''{\"data\": [1]}'') = Inl ValidationError"
    using decode_failures
      [of json_loads "json_response ''{\"data\": [1]}''" "\<lparr> data = [], fn_index = 0 \<rparr>"] h(3)
    by simp
  show ?thesis
    using decode_failures [of json_loads "json_response ''{}''" "\<lparr> data = [], fn_index = 0 \<rparr>"]
      decode_failures [of json_loads "json_response ''not-json''" "\<lparr> data = [], fn_index = 0 \<rparr>"]
      h v
    by simp
qed

text \<open>
  C8 as stated fails: the body below has no \<open>data\<close> array, and the decoder returns a result
  whose content is the first character of the string it found.
\<close>

theorem decode_string_data_counterexample:
  "transform_response json_loads (json_response ''{\"data\": \"hello\"}'') =
     Inr \<lparr> model = ''gradio-llama'',
           choices =
             [ \<lparr> choice_message = \<lparr> role = ''assistant'', content = PStr ''h'' \<rparr>,
                 choice_finish_reason = ''stop'',
                 choice_index = 0 \<rparr> ],
           response_usage =
             \<lparr> completion_tokens = 0, prompt_tokens = 0, total_tokens = 0 \<rparr> \<rparr>"
  by (simp add: transform_response_def ModelResponse_init_def json_response_def
      json_loads_hello_str name_def utf8_width_def)

end
